theory Spec2Isabelle
  imports Main "HOL-Library.AList" "HOL-Library.Word" "HOL-Library.Multiset"
begin

section \<open>Peripherals\<close>

text \<open>
  A Go \<open>float64\<close>: a finite value is \<open>(-1)^neg * m * 2^e\<close>, the other values are the two
  infinities and NaN.
\<close>

datatype float64 = Finite bool nat int | Inf bool | NaN

text \<open>
  The \<open>peripherals.Peripheral\<close> interface has the methods \<open>UniqueKey\<close>, \<open>Kind\<close>,
  \<open>Proximity\<close> and \<open>Accuracy\<close>. Its concrete types are \<open>*IBeaconPeripheral\<close>, which also has
  \<open>Uuid\<close>, \<open>Major\<close> and \<open>Minor\<close> (both \<open>uint16\<close>), and every other implementation, which
  the code only reaches through the four interface methods. A nil interface value is \<open>None\<close>
  of \<open>peripheral option\<close>.
\<close>

record peripheral_base =
  pb_key :: string
  pb_kind :: string
  pb_proximity :: string
  pb_accuracy :: float64

datatype peripheral =
    GenericPeripheral peripheral_base
  | IBeaconPeripheral peripheral_base string "16 word" "16 word"

fun base_of :: "peripheral \<Rightarrow> peripheral_base" where
  "base_of (GenericPeripheral b) = b"
| "base_of (IBeaconPeripheral b u mj mn) = b"

definition UniqueKey :: "peripheral \<Rightarrow> string" where
  "UniqueKey p = pb_key (base_of p)"

definition Kind :: "peripheral \<Rightarrow> string" where
  "Kind p = pb_kind (base_of p)"

definition Proximity :: "peripheral \<Rightarrow> string" where
  "Proximity p = pb_proximity (base_of p)"

definition Accuracy :: "peripheral \<Rightarrow> float64" where
  "Accuracy p = pb_accuracy (base_of p)"

text \<open>A panic of the Go runtime: the call does not return.\<close>

datatype panic = NilDereference | SliceBoundsOutOfRange | MakesliceCapOutOfRange

section \<open>The activity service (server/monitoring/activity/service.go)\<close>

record Record =
  Key :: string
  rec_Kind :: string
  rec_Proximity :: string
  Registered :: bool
  Time :: nat

text \<open>
  \<open>Service.records\<close> is a Go \<open>map[string]*Record\<close>. It is modelled by the list of its
  entries; assignment to a key is \<open>AList.update\<close> (replace the entry of that key, or add one)
  and \<open>delete\<close> is \<open>AList.delete\<close>. The mutex and the logger are not modelled: every
  operation runs alone.
\<close>

record Service =
  records :: "(string \<times> Record) list"

definition NewService :: Service where
  "NewService = \<lparr>records = []\<rparr>"

definition Quantity :: "Service \<Rightarrow> nat" where
  "Quantity s = length (records s)"

text \<open>
  The second loop of \<open>GetRecords\<close>. It ranges over the slice \<open>list\<close> as it was when the
  loop began (\<open>idx\<close>, \<open>record\<close>), and carries the two variables \<open>result\<close> and \<open>list\<close>.
  The statement in the body is \<open>list = append(result, &item)\<close>: it assigns to \<open>list\<close>, and
  \<open>result\<close>, whose length stays what it was, is what the function returns.
\<close>

fun GetRecords_loop ::
  "int \<Rightarrow> int \<Rightarrow> int \<Rightarrow> Record list \<Rightarrow> Record list \<Rightarrow> Record list \<Rightarrow> Record list" where
  "GetRecords_loop resultSize skip idx [] result lst = result"
| "GetRecords_loop resultSize skip idx (record # rest) result lst =
     (let num = idx + 1 in
      if skip = 0 \<or> skip > num then
        if int (length result) = resultSize then result
        else (let item = record in
              GetRecords_loop resultSize skip (idx + 1) rest result (result @ [item]))
      else GetRecords_loop resultSize skip (idx + 1) rest result lst)"

text \<open>
  \<open>GetRecords(take, skip)\<close>. The order in which \<open>range\<close> visits a Go map is chosen by the
  runtime; it is the parameter \<open>ord\<close>. \<open>make([]*Record, 0, resultSize)\<close> does not return
  when the capacity is negative or larger than what the platform can allocate; that bound
  is the parameter \<open>max_cap\<close>.
\<close>

definition GetRecords ::
  "((string \<times> Record) list \<Rightarrow> (string \<times> Record) list) \<Rightarrow> int \<Rightarrow> int \<Rightarrow> int \<Rightarrow> Service
    \<Rightarrow> panic + Record list" where
  "GetRecords ord max_cap n_take n_skip s =
     (let resultSize = (if n_take = 0 then int (length (records s)) else n_take) in
      if resultSize < 0 \<or> max_cap < resultSize then Inl MakesliceCapOutOfRange
      else (let list = map snd (ord (records s)) in
            Inr (GetRecords_loop resultSize n_skip 0 list [] list)))"

text \<open>
  The two callbacks that \<open>Use\<close> subscribes. The first argument is the value of
  \<open>time.Now()\<close> when the callback runs. Calling \<open>UniqueKey\<close> on a nil interface panics.
\<close>

definition on_found :: "nat \<Rightarrow> peripheral option \<Rightarrow> bool \<Rightarrow> Service \<Rightarrow> panic + Service" where
  "on_found now peripheral registered s =
     (case peripheral of
        None \<Rightarrow> Inl NilDereference
      | Some p \<Rightarrow>
          Inr (s\<lparr>records :=
                 AList.update (UniqueKey p)
                   \<lparr>Key = UniqueKey p, rec_Kind = Kind p, rec_Proximity = Proximity p,
                    Registered = registered, Time = now\<rparr>
                   (records s)\<rparr>))"

definition on_lost :: "nat \<Rightarrow> peripheral option \<Rightarrow> bool \<Rightarrow> Service \<Rightarrow> panic + Service" where
  "on_lost now peripheral registered s =
     (case peripheral of
        None \<Rightarrow> Inl NilDereference
      | Some p \<Rightarrow> Inr (s\<lparr>records := AList.delete (UniqueKey p) (records s)\<rparr>))"

text \<open>
  Modelled from the spec: \<open>notification.EventBroker\<close> and the topic constants
  \<open>PERIPHERAL_FOUND\<close> and \<open>PERIPHERAL_LOST\<close> are not among the sources. The spec gives
  \<open>Subscribe(topic, handler)\<close> with topic in {found, lost} and a handler that receives the
  peripheral and the registered flag. A broker is the list of its subscriptions.
\<close>

type_synonym handler = "nat \<Rightarrow> peripheral option \<Rightarrow> bool \<Rightarrow> Service \<Rightarrow> panic + Service"

record EventBroker =
  subscriptions :: "(string \<times> handler) list"

definition PERIPHERAL_FOUND :: string where
  "PERIPHERAL_FOUND = ''found''"

definition PERIPHERAL_LOST :: string where
  "PERIPHERAL_LOST = ''lost''"

definition Subscribe :: "string \<Rightarrow> handler \<Rightarrow> EventBroker \<Rightarrow> EventBroker" where
  "Subscribe topic h b = b\<lparr>subscriptions := subscriptions b @ [(topic, h)]\<rparr>"

text \<open>\<open>Use(broker)\<close>: a nil broker is left alone, otherwise both callbacks are subscribed.\<close>

definition Use :: "EventBroker option \<Rightarrow> EventBroker option" where
  "Use broker =
     (case broker of
        None \<Rightarrow> None
      | Some b \<Rightarrow> Some (Subscribe PERIPHERAL_LOST on_lost (Subscribe PERIPHERAL_FOUND on_found b)))"

text \<open>Bus events, and the service state after the callbacks of a run of events.\<close>

datatype bus_event = Found nat peripheral bool | Lost nat peripheral bool

fun deliver :: "bus_event \<Rightarrow> Service \<Rightarrow> panic + Service" where
  "deliver (Found now p registered) s = on_found now (Some p) registered s"
| "deliver (Lost now p registered) s = on_lost now (Some p) registered s"

fun deliver_all :: "bus_event list \<Rightarrow> Service \<Rightarrow> panic + Service" where
  "deliver_all [] s = Inr s"
| "deliver_all (e # es) s =
     (case deliver e s of Inl p \<Rightarrow> Inl p | Inr s' \<Rightarrow> deliver_all es s')"

section \<open>Go library functions used by the sender\<close>

text \<open>
  \<open>strconv.Itoa\<close>: the decimal digits of an integer, with a minus sign when negative.
\<close>

definition digit_char :: "nat \<Rightarrow> char" where
  "digit_char d = ''0123456789'' ! d"

fun Itoa_nat :: "nat \<Rightarrow> string" where
  "Itoa_nat n = (if n < 10 then [digit_char n] else Itoa_nat (n div 10) @ [digit_char (n mod 10)])"

declare Itoa_nat.simps [simp del]

definition Itoa :: "int \<Rightarrow> string" where
  "Itoa i = (if i < 0 then ''-'' @ Itoa_nat (nat (- i)) else Itoa_nat (nat i))"

text \<open>
  \<open>strconv.FormatFloat(f, 'f', 6, 64)\<close>: NaN and the infinities are printed by name; a
  finite value is printed as its integer part, a point and six fractional digits, the exact
  value being rounded to the nearest multiple of \<open>10^-6\<close>, a tie going to the even one.
  \<open>round_half_even num den\<close> is \<open>num / den\<close> rounded that way.
\<close>

definition round_half_even :: "nat \<Rightarrow> nat \<Rightarrow> nat" where
  "round_half_even num den =
     (let q = num div den; r = num mod den in
      if 2 * r > den \<or> (2 * r = den \<and> odd q) then q + 1 else q)"

definition pad6 :: "nat \<Rightarrow> string" where
  "pad6 n = replicate (6 - length (Itoa_nat n)) CHR ''0'' @ Itoa_nat n"

fun FormatFloat_f6 :: "float64 \<Rightarrow> string" where
  "FormatFloat_f6 NaN = ''NaN''"
| "FormatFloat_f6 (Inf neg) = (if neg then ''-Inf'' else ''+Inf'')"
| "FormatFloat_f6 (Finite neg m e) =
     (let scaled = (if 0 \<le> e then m * 1000000 * 2 ^ nat e
                    else round_half_even (m * 1000000) (2 ^ nat (- e)))
      in (if neg then ''-'' else []) @ Itoa_nat (scaled div 1000000) @ ''.''
           @ pad6 (scaled mod 1000000))"

section \<open>The notification sender (pkg/delivery/delivery.go)\<close>

record Endpoint =
  ep_Name :: string
  ep_Url :: string
  ep_Method :: string
  ep_Headers :: "(string \<times> string) list"

record Subscriber =
  sub_Name :: string
  sub_Endpoint :: "Endpoint option"

record Message =
  msg_EventName :: string
  msg_TargetName :: string
  msg_Peripheral :: "peripheral option"
  msg_Subscribers :: "Subscriber list"

datatype error =
    ErrUnsupportedEventName string
  | ErrMissedPeripheral
  | ErrUnableToSerializePeripheral string
  | ErrEmptyUrl
  | ErrRequestCreation string
  | ErrMarshal string
  | ErrTransport string

record Event =
  ev_Name :: string
  ev_Timestamp :: nat
  ev_TargetName :: string
  ev_Subscriber :: Subscriber
  ev_Delivered :: bool
  ev_Error :: "error option"

text \<open>
  An \<open>EventListener\<close> is a Go function value. \<open>reflect.ValueOf(f).Pointer()\<close> is the address
  of its code; two closures made from one function literal have the same code pointer and
  differ in what they captured. A nil function value is \<open>None\<close> of \<open>EventListener option\<close>.
\<close>

record EventListener =
  code_pointer :: nat
  captured :: nat

record Sender =
  listeners :: "EventListener list"

text \<open>
  An \<open>*http.Request\<close>, as far as the sender sets it. \<open>req_RawQuery\<close> is \<open>None\<close> as long as
  the query is the one the URL string came with, and \<open>Some q\<close> once \<open>req.URL.RawQuery\<close>
  has been assigned. \<open>req_Header\<close> holds one value per canonical header name.
\<close>

record request =
  req_Method :: string
  req_Url :: string
  req_RawQuery :: "string option"
  req_Header :: "(string \<times> string) list"
  req_Body :: "string option"

text \<open>
  What a call does to the outside, in the order it happens: a line given to the logger, a
  request given to \<open>Transport.Do\<close>, an event given to a listener.
\<close>

datatype log_level = LogInfo | LogWarn | LogError

datatype log_line = Text string | ErrorText error

datatype effect =
    Logged log_level log_line
  | TransportDo request
  | ListenerCall EventListener Event

record 'w world =
  outside :: 'w
  trace :: "effect list"

text \<open>
  The collaborators and library functions the sender calls, none of which is among the
  sources. \<open>transport_Do\<close> and \<open>time_Now\<close> act on the state \<open>'w\<close> of the outside world;
  \<open>NewRequest_error\<close> is the error of \<open>http.NewRequest\<close> for a method and a URL, if any;
  \<open>json_Marshal\<close> is \<open>json.Marshal\<close> on the field mapping; \<open>range_map\<close> is the order in
  which \<open>range\<close> visits the entries of a map.
\<close>

record 'w runtime =
  transport_Do :: "request \<Rightarrow> 'w \<Rightarrow> string option \<times> 'w"
  time_Now :: "'w \<Rightarrow> nat \<times> 'w"
  strings_ToUpper :: "string \<Rightarrow> string"
  NewRequest_error :: "string \<Rightarrow> string \<Rightarrow> string option"
  url_QueryEscape :: "string \<Rightarrow> string"
  json_Marshal :: "(string \<times> string) list \<Rightarrow> string + string"
  CanonicalHeaderKey :: "string \<Rightarrow> string"
  range_map :: "(string \<times> string) list \<Rightarrow> (string \<times> string) list"

text \<open>\<open>range\<close> visits every entry of the map once.\<close>

definition range_visits_each_once :: "'w runtime \<Rightarrow> bool" where
  "range_visits_each_once rt = (\<forall>m. mset (range_map rt m) = mset m)"

definition logged :: "log_level \<Rightarrow> log_line \<Rightarrow> 'w world \<Rightarrow> 'w world" where
  "logged lvl line w = w\<lparr>trace := trace w @ [Logged lvl line]\<rparr>"

text \<open>
  \<open>http.NewRequest(method, url, nil)\<close>: it fails with \<open>NewRequest_error\<close> of its two
  arguments, and otherwise returns a request for the URL whose method is the one given,
  or GET when the one given is the empty string.
\<close>

definition http_NewRequest :: "'w runtime \<Rightarrow> string \<Rightarrow> string \<Rightarrow> string + request" where
  "http_NewRequest rt method url =
     (case NewRequest_error rt method url of
        Some e \<Rightarrow> Inl e
      | None \<Rightarrow> Inr \<lparr>req_Method = (if method = [] then ''GET'' else method), req_Url = url,
                      req_RawQuery = None, req_Header = [], req_Body = None\<rparr>)"

definition Header_Set :: "'w runtime \<Rightarrow> string \<Rightarrow> string \<Rightarrow> request \<Rightarrow> request" where
  "Header_Set rt key v req =
     req\<lparr>req_Header := AList.update (CanonicalHeaderKey rt key) v (req_Header req)\<rparr>"

definition isSupportedEventName :: "string \<Rightarrow> bool" where
  "isSupportedEventName name =
     (if name = [] then False else name = ''found'' \<or> name = ''lost'')"

definition AddEventListener :: "EventListener option \<Rightarrow> Sender \<Rightarrow> Sender" where
  "AddEventListener listener sender =
     (case listener of
        None \<Rightarrow> sender
      | Some l \<Rightarrow> sender\<lparr>listeners := listeners sender @ [l]\<rparr>)"

text \<open>
  The loop of \<open>RemoveEventListener\<close>: \<open>idx\<close> is assigned at every element whose code
  pointer is the handler's, and the loop runs to the end of the slice.
\<close>

fun RemoveEventListener_loop :: "nat \<Rightarrow> int \<Rightarrow> EventListener list \<Rightarrow> int \<Rightarrow> int" where
  "RemoveEventListener_loop handlerPointer i [] idx = idx"
| "RemoveEventListener_loop handlerPointer i (element # rest) idx =
     RemoveEventListener_loop handlerPointer (i + 1) rest
       (if code_pointer element = handlerPointer then i else idx)"

definition RemoveEventListener :: "EventListener option \<Rightarrow> Sender \<Rightarrow> bool \<times> Sender" where
  "RemoveEventListener listener sender =
     (case listener of
        None \<Rightarrow> (False, sender)
      | Some l \<Rightarrow>
          (let idx = RemoveEventListener_loop (code_pointer l) 0 (listeners sender) (- 1) in
           if idx < 0 then (False, sender)
           else (True, sender\<lparr>listeners :=
                   take (nat idx) (listeners sender) @ drop (nat (idx + 1)) (listeners sender)\<rparr>)))"

text \<open>
  Modelled from the spec: the constant \<open>peripherals.PERIPHERAL_IBEACON\<close> is not among the
  sources; the spec names the kind "ibeacon".
\<close>

definition PERIPHERAL_IBEACON :: string where
  "PERIPHERAL_IBEACON = ''ibeacon''"

text \<open>
  \<open>serializePeripheral\<close>. The field mapping is a Go map from strings to values that are all
  strings here; it is modelled by the list of its entries, like the Record map.
\<close>

definition serializePeripheral ::
  "string \<Rightarrow> peripheral option \<Rightarrow> error + (string \<times> string) list" where
  "serializePeripheral name peripheral =
     (case peripheral of
        None \<Rightarrow> Inl ErrMissedPeripheral
      | Some p \<Rightarrow>
          (let serialized =
                 AList.update ''accuracy'' (FormatFloat_f6 (Accuracy p))
                   (AList.update ''proximity'' (Proximity p)
                     (AList.update ''kind'' (Kind p)
                       (AList.update ''name'' name [])))
           in if Kind p = PERIPHERAL_IBEACON then
                (case p of
                   IBeaconPeripheral b uuid major minor \<Rightarrow>
                     Inr (AList.update ''minor'' (Itoa (uint minor))
                           (AList.update ''major'' (Itoa (uint major))
                             (AList.update ''uuid'' uuid serialized)))
                 | GenericPeripheral b \<Rightarrow> Inl (ErrUnableToSerializePeripheral (UniqueKey p)))
              else Inr serialized))"

text \<open>
  \<open>encode\<close>. The loop writes \<open>QueryEscape(k)\<close>, \<open>=\<close>, the value and \<open>&\<close> for every entry;
  then \<open>str[0 : len(str)-1]\<close> is returned, and slicing to \<open>-1\<close> panics. The error that
  \<open>encode\<close> returns beside the string is always nil.
\<close>

fun encode_loop :: "(string \<Rightarrow> string) \<Rightarrow> (string \<times> string) list \<Rightarrow> string \<Rightarrow> string" where
  "encode_loop esc [] buf = buf"
| "encode_loop esc ((k, v) # rest) buf = encode_loop esc rest (buf @ esc k @ ''='' @ v @ ''&'')"

definition encode :: "'w runtime \<Rightarrow> (string \<times> string) list \<Rightarrow> panic + string" where
  "encode rt data =
     (let str = encode_loop (url_QueryEscape rt) (range_map rt data) [] in
      if int (length str) - 1 < 0 then Inl SliceBoundsOutOfRange
      else Inr (take (nat (int (length str) - 1)) str))"

text \<open>
  Two steps of \<open>sendSingle\<close>, named here to be referred to: the loop that sets the
  endpoint's headers on the request, entered when the header map is neither nil nor
  empty, and the call of the transport with the logging of its error.
\<close>

definition set_endpoint_headers :: "'w runtime \<Rightarrow> Endpoint \<Rightarrow> request \<Rightarrow> request" where
  "set_endpoint_headers rt endpoint req =
     (let headers = ep_Headers endpoint in
      if headers \<noteq> [] then
        fold (\<lambda>(key, v). Header_Set rt key v) (range_map rt headers) req
      else req)"

definition call_transport ::
  "'w runtime \<Rightarrow> request \<Rightarrow> 'w world \<Rightarrow> (panic + error option) \<times> 'w world" where
  "call_transport rt req w =
     (case transport_Do rt req (outside w) of
        (Some e, x) \<Rightarrow>
          (Inr (Some (ErrTransport e)),
           logged LogError (Text ''Failed to reach out the endpoint'')
             (w\<lparr>outside := x, trace := trace w @ [TransportDo req]\<rparr>))
      | (None, x) \<Rightarrow>
          (Inr None, w\<lparr>outside := x, trace := trace w @ [TransportDo req]\<rparr>))"

text \<open>
  \<open>sendSingle\<close>. The result is the error the function returns (\<open>None\<close> for nil), or the
  panic that ends it, and the world afterwards. After \<open>http.NewRequest\<close> has returned
  without error the request is not nil, so the test \<open>req == nil\<close> that follows the
  method branches never holds and has no branch here.
\<close>

definition sendSingle ::
  "'w runtime \<Rightarrow> string \<Rightarrow> peripheral option \<Rightarrow> Subscriber \<Rightarrow> 'w world
    \<Rightarrow> (panic + error option) \<times> 'w world" where
  "sendSingle rt name peripheral subscriber w =
     (case serializePeripheral name peripheral of
        Inl err \<Rightarrow> (Inr (Some err), logged LogError (ErrorText err) w)
      | Inr serialized \<Rightarrow>
          (case sub_Endpoint subscriber of
             None \<Rightarrow> (Inr None, logged LogWarn (Text ''subscriber has no endpoints'') w)
           | Some endpoint \<Rightarrow>
               if ep_Url endpoint = [] then
                 (Inr (Some ErrEmptyUrl),
                  logged LogError (Text ''endpoint has an empty url: %s'') w)
               else
                 (let method = strings_ToUpper rt (ep_Method endpoint) in
                  case http_NewRequest rt method (ep_Url endpoint) of
                    Inl e \<Rightarrow>
                      (Inr (Some (ErrRequestCreation e)),
                       logged LogError (Text ''failed to create a new request'') w)
                  | Inr req \<Rightarrow>
                      if method = ''POST'' then
                        (case json_Marshal rt serialized of
                           Inl e \<Rightarrow> (Inr (Some (ErrMarshal e)), w)
                         | Inr body \<Rightarrow>
                             call_transport rt
                               (set_endpoint_headers rt endpoint
                                  ((Header_Set rt ''Content-Type'' ''application/json'' req)
                                     \<lparr>req_Body := Some body\<rparr>))
                               w)
                      else
                        (case encode rt serialized of
                           Inl pn \<Rightarrow> (Inl pn, w)
                         | Inr query \<Rightarrow>
                             call_transport rt
                               (set_endpoint_headers rt endpoint
                                  (req\<lparr>req_RawQuery := Some query\<rparr>))
                               w))))"

text \<open>
  The line logged by \<open>sendBatch\<close> for a failed delivery; it ends with an apostrophe.
\<close>

definition failed_to_notify :: string where
  "failed_to_notify = ''Failed to notify a subscriber '%s' for peripheral '%s'' @ [CHR 0x27]"

text \<open>
  The loop of \<open>sendBatch\<close> over the subscribers, with the slice \<open>events\<close> it appends to.
  A panic in \<open>sendSingle\<close> ends the goroutine: no further subscriber is served.
\<close>

fun sendBatch_loop ::
  "'w runtime \<Rightarrow> Message \<Rightarrow> Subscriber list \<Rightarrow> Event list \<Rightarrow> 'w world
    \<Rightarrow> (panic + Event list) \<times> 'w world" where
  "sendBatch_loop rt msg [] events w = (Inr events, w)"
| "sendBatch_loop rt msg (subscriber # rest) events w =
     (case sendSingle rt (msg_TargetName msg) (msg_Peripheral msg) subscriber w of
        (Inl pn, w1) \<Rightarrow> (Inl pn, w1)
      | (Inr err, w1) \<Rightarrow>
          (case time_Now rt (outside w1) of
             (now, x) \<Rightarrow>
               (let evt = \<lparr>ev_Name = msg_EventName msg, ev_Timestamp = now,
                           ev_TargetName = msg_TargetName msg, ev_Subscriber = subscriber,
                           ev_Delivered = (err = None), ev_Error = err\<rparr>;
                    w2 = (if err = None then
                            logged LogInfo
                              (Text ''Succeeded to notify a subscriber for peripheral'')
                              (w1\<lparr>outside := x\<rparr>)
                          else
                            logged LogInfo
                              (Text failed_to_notify)
                              (w1\<lparr>outside := x\<rparr>))
                in sendBatch_loop rt msg rest (events @ [evt]) w2)))"

text \<open>
  \<open>emit\<close>: nothing for an empty batch; otherwise every listener, in the order of the
  slice, is called with every event, in the order of the batch.
\<close>

definition emit :: "Sender \<Rightarrow> Event list \<Rightarrow> 'w world \<Rightarrow> 'w world" where
  "emit sender events w =
     (if events = [] then w
      else fold (\<lambda>listener. fold (\<lambda>evt w'. w'\<lparr>trace := trace w' @ [ListenerCall listener evt]\<rparr>)
                              events)
             (listeners sender) w)"

definition sendBatch :: "'w runtime \<Rightarrow> Sender \<Rightarrow> Message \<Rightarrow> 'w world \<Rightarrow> panic option \<times> 'w world" where
  "sendBatch rt sender msg w =
     (case sendBatch_loop rt msg (msg_Subscribers msg) [] w of
        (Inl pn, w1) \<Rightarrow> (Some pn, w1)
      | (Inr events, w1) \<Rightarrow> (None, emit sender events w1))"

text \<open>
  \<open>Send\<close>. The source starts \<open>sendBatch\<close> in a goroutine and returns nil at once; here the
  batch runs to its end before the next call starts, so the world returned is the one the
  batch leaves. Interleavings of several batches are not modelled.
\<close>

definition Send :: "'w runtime \<Rightarrow> Sender \<Rightarrow> Message \<Rightarrow> 'w world \<Rightarrow> error option \<times> 'w world" where
  "Send rt sender msg w =
     (if \<not> isSupportedEventName (msg_EventName msg) then
        (Some (ErrUnsupportedEventName (msg_EventName msg)), w)
      else (None, snd (sendBatch rt sender msg w)))"

text \<open>The requests given to the transport and the listener calls of a trace, in order.\<close>

fun sent_requests :: "effect list \<Rightarrow> request list" where
  "sent_requests [] = []"
| "sent_requests (TransportDo r # es) = r # sent_requests es"
| "sent_requests (e # es) = sent_requests es"

fun listener_calls :: "effect list \<Rightarrow> (EventListener \<times> Event) list" where
  "listener_calls [] = []"
| "listener_calls (ListenerCall l e # es) = (l, e) # listener_calls es"
| "listener_calls (e # es) = listener_calls es"

text \<open>
  A runtime to evaluate the sender on: the outside world is a clock, the transport fails
  for the URL \<open>http://down\<close> only, upper-casing maps the ASCII letters, every request can be
  built, and escaping, header names and the order of \<open>range\<close> leave their argument as it is.
\<close>

definition ascii_upper :: "char \<Rightarrow> char" where
  "ascii_upper c =
     (case map_of (zip ''abcdefghijklmnopqrstuvwxyz'' ''ABCDEFGHIJKLMNOPQRSTUVWXYZ'') c of
        Some u \<Rightarrow> u
      | None \<Rightarrow> c)"

definition sample_runtime :: "nat runtime" where
  "sample_runtime =
     \<lparr>transport_Do = (\<lambda>req t. (if req_Url req = ''http://down'' then Some ''refused'' else None, t)),
      time_Now = (\<lambda>t. (t, Suc t)),
      strings_ToUpper = map ascii_upper,
      NewRequest_error = (\<lambda>method url. None),
      url_QueryEscape = (\<lambda>k. k),
      json_Marshal = (\<lambda>m. Inr (concat (map (\<lambda>(k, v). k @ '':'' @ v @ '';'') m))),
      CanonicalHeaderKey = (\<lambda>k. k),
      range_map = (\<lambda>m. m)\<rparr>"

text \<open>Values to evaluate the sender on.\<close>

definition sample_peripheral :: peripheral where
  "sample_peripheral =
     IBeaconPeripheral \<lparr>pb_key = ''k'', pb_kind = ''ibeacon'', pb_proximity = ''near'',
                        pb_accuracy = Finite False 3 (- 2)\<rparr> ''U1'' 1 2"

definition sample_fields :: "(string \<times> string) list" where
  "sample_fields =
     [(''name'', ''door''), (''kind'', ''ibeacon''), (''proximity'', ''near''),
      (''accuracy'', ''0.750000''), (''uuid'', ''U1''), (''major'', ''1''), (''minor'', ''2'')]"

definition no_endpoint :: Subscriber where
  "no_endpoint = \<lparr>sub_Name = ''n'', sub_Endpoint = None\<rparr>"

definition with_endpoint :: "string \<Rightarrow> string \<Rightarrow> (string \<times> string) list \<Rightarrow> Subscriber" where
  "with_endpoint method url headers =
     \<lparr>sub_Name = ''s'',
      sub_Endpoint = Some \<lparr>ep_Name = ''hook'', ep_Url = url, ep_Method = method,
                            ep_Headers = headers\<rparr>\<rparr>"

definition found_message :: "peripheral option \<Rightarrow> Subscriber list \<Rightarrow> Message" where
  "found_message peripheral subscribers =
     \<lparr>msg_EventName = ''found'', msg_TargetName = ''door'', msg_Peripheral = peripheral,
      msg_Subscribers = subscribers\<rparr>"

definition start_world :: "nat world" where
  "start_world = \<lparr>outside = 0, trace = []\<rparr>"

section \<open>Definitions that follow the specification's wording\<close>

text \<open>
  The removal that the sentence on \<open>RemoveEventListener\<close> describes: the first listener
  whose code pointer is the given one is taken out.
\<close>

fun remove_first_match :: "nat \<Rightarrow> EventListener list \<Rightarrow> EventListener list" where
  "remove_first_match hp [] = []"
| "remove_first_match hp (x # xs) =
     (if code_pointer x = hp then xs else x # remove_first_match hp xs)"

text \<open>
  Predicates and functions the statements below are written with: decimal digits, the
  concrete type of a peripheral, and strings joined by \<open>&\<close>.
\<close>

definition is_digit :: "char \<Rightarrow> bool" where
  "is_digit c = (c \<in> set ''0123456789'')"

text \<open>
  The number a string of decimal digits writes, and what it is for a number \<open>n\<close> of
  millionths to be a nearest one to \<open>mant * 2^e\<close>: it is that value when \<open>e\<close> is not
  negative, and otherwise differs from it by half a millionth at most.
\<close>

definition digit_val :: "char \<Rightarrow> nat" where
  "digit_val c = length (takeWhile (\<lambda>x. x \<noteq> c) ''0123456789'')"

definition digits_value :: "string \<Rightarrow> nat" where
  "digits_value s = foldl (\<lambda>a c. 10 * a + digit_val c) 0 s"

definition nearest_micro :: "nat \<Rightarrow> int \<Rightarrow> nat \<Rightarrow> bool" where
  "nearest_micro mant e n =
     (if 0 \<le> e then n = mant * 2 ^ nat e * 1000000
      else 2 * \<bar>int n * 2 ^ nat (- e) - int mant * 1000000\<bar> \<le> 2 ^ nat (- e))"

fun is_IBeacon :: "peripheral \<Rightarrow> bool" where
  "is_IBeacon (IBeaconPeripheral b u mj mn) = True"
| "is_IBeacon (GenericPeripheral b) = False"

fun join_amp :: "string list \<Rightarrow> string" where
  "join_amp [] = []"
| "join_amp [x] = x"
| "join_amp (x # y # ys) = x @ ''&'' @ join_amp (y # ys)"

section \<open>Properties of the activity service\<close>

lemma GetRecords_loop_result:
  "GetRecords_loop resultSize skip idx xs result lst = result"
  by (induction resultSize skip idx xs result lst rule: GetRecords_loop.induct)
     (auto simp add: Let_def)

lemma GetRecords_empty:
  "GetRecords ord max_cap n_take n_skip s =
     (if (if n_take = 0 then int (length (records s)) else n_take) < 0
         \<or> max_cap < (if n_take = 0 then int (length (records s)) else n_take)
      then Inl MakesliceCapOutOfRange else Inr [])"
  by (simp add: GetRecords_def Let_def GetRecords_loop_result)

lemma on_found_distinct:
  "distinct (map fst (records s)) \<Longrightarrow> on_found now (Some p) registered s = Inr s'
    \<Longrightarrow> distinct (map fst (records s'))"
  by (auto simp add: on_found_def distinct_update)

lemma on_lost_distinct:
  "distinct (map fst (records s)) \<Longrightarrow> on_lost now (Some p) registered s = Inr s'
    \<Longrightarrow> distinct (map fst (records s'))"
  by (auto simp add: on_lost_def distinct_delete)

lemma deliver_distinct:
  "distinct (map fst (records s)) \<Longrightarrow> deliver e s = Inr s' \<Longrightarrow> distinct (map fst (records s'))"
  by (cases e) (auto dest: on_found_distinct on_lost_distinct)

lemma deliver_returns: "\<exists>s'. deliver e s = Inr s'"
  by (cases e) (simp_all add: on_found_def on_lost_def)

lemma deliver_all_distinct:
  "distinct (map fst (records s)) \<Longrightarrow>
     \<exists>s'. deliver_all es s = Inr s' \<and> distinct (map fst (records s'))"
proof (induction es arbitrary: s)
  case Nil
  then show ?case by simp
next
  case (Cons e es)
  obtain s1 where s1: "deliver e s = Inr s1"
    using deliver_returns by blast
  with Cons.prems have "distinct (map fst (records s1))"
    by (rule deliver_distinct)
  from Cons.IH [OF this] s1 show ?case by simp
qed

text \<open>
  C9. The Record map never holds two entries for one key: it has none when the service is
  created, and no run of found and lost callbacks produces one. On a state without
  duplicate keys, the found callback returns, and the map afterwards is the map before with
  the peripheral's unique key bound to a Record made of that key, the peripheral's kind and
  proximity, the registered flag as given and the current time, whatever was bound to the
  key before; the lost callback returns, and the map afterwards is the map before without
  that key; and \<open>Quantity\<close> is the number of keys of the map. \<open>Use\<close> subscribes these
  two callbacks, the first to "found" and the second to "lost", and does nothing with a nil
  broker.
\<close>

theorem directory_upsert_delete_quantity:
  assumes "distinct (map fst (records s))"
  shows "distinct (map fst (records NewService))
    \<and> (\<exists>s'. deliver_all es NewService = Inr s' \<and> distinct (map fst (records s')))
    \<and> (\<exists>s'. on_found now (Some p) registered s = Inr s'
          \<and> map_of (records s') =
              (map_of (records s))(UniqueKey p \<mapsto>
                 \<lparr>Key = UniqueKey p, rec_Kind = Kind p, rec_Proximity = Proximity p,
                  Registered = registered, Time = now\<rparr>)
          \<and> distinct (map fst (records s')))
    \<and> (\<exists>s'. on_lost now (Some p) registered s = Inr s'
          \<and> map_of (records s') = (map_of (records s))(UniqueKey p := None)
          \<and> distinct (map fst (records s')))
    \<and> Quantity s = card (dom (map_of (records s)))
    \<and> Use None = None
    \<and> Use (Some b) =
        Some (b\<lparr>subscriptions :=
                 subscriptions b @ [(''found'', on_found), (''lost'', on_lost)]\<rparr>)"
proof -
  have use: "Use None = None
    \<and> Use (Some b) =
        Some (b\<lparr>subscriptions :=
                 subscriptions b @ [(''found'', on_found), (''lost'', on_lost)]\<rparr>)"
    by (simp add: Use_def Subscribe_def PERIPHERAL_FOUND_def PERIPHERAL_LOST_def)
  have new: "distinct (map fst (records NewService))"
    by (simp add: NewService_def)
  have run: "\<exists>s'. deliver_all es NewService = Inr s' \<and> distinct (map fst (records s'))"
    using new by (rule deliver_all_distinct)
  have found: "\<exists>s'. on_found now (Some p) registered s = Inr s'
          \<and> map_of (records s') =
              (map_of (records s))(UniqueKey p \<mapsto>
                 \<lparr>Key = UniqueKey p, rec_Kind = Kind p, rec_Proximity = Proximity p,
                  Registered = registered, Time = now\<rparr>)
          \<and> distinct (map fst (records s'))"
    using assms by (simp add: on_found_def update_conv' distinct_update)
  have lost: "\<exists>s'. on_lost now (Some p) registered s = Inr s'
          \<and> map_of (records s') = (map_of (records s))(UniqueKey p := None)
          \<and> distinct (map fst (records s'))"
    using assms by (simp add: on_lost_def delete_conv' distinct_delete)
  have "card (dom (map_of (records s))) = card (set (map fst (records s)))"
    by (simp add: dom_map_of_conv_image_fst)
  also have "\<dots> = length (map fst (records s))"
    using assms by (rule distinct_card)
  finally have quantity: "Quantity s = card (dom (map_of (records s)))"
    by (simp add: Quantity_def)
  from new run found lost quantity use show ?thesis by blast
qed

theorem directory_upsert_delete_quantity_witness:
  "distinct (map fst (records \<lparr>records = [(''a'', \<lparr>Key = ''a'', rec_Kind = ''generic'',
       rec_Proximity = ''far'', Registered = False, Time = 1\<rparr>)]\<rparr>))
   \<and> (\<exists>s'. on_found 7
         (Some (GenericPeripheral \<lparr>pb_key = ''a'', pb_kind = ''generic'',
            pb_proximity = ''near'', pb_accuracy = Finite False 3 (- 1)\<rparr>)) True
         \<lparr>records = [(''a'', \<lparr>Key = ''a'', rec_Kind = ''generic'',
            rec_Proximity = ''far'', Registered = False, Time = 1\<rparr>)]\<rparr> = Inr s'
       \<and> map_of (records s') ''a'' =
           Some \<lparr>Key = ''a'', rec_Kind = ''generic'', rec_Proximity = ''near'',
                 Registered = True, Time = 7\<rparr>)
   \<and> Quantity \<lparr>records = [(''a'', \<lparr>Key = ''a'', rec_Kind = ''generic'',
       rec_Proximity = ''far'', Registered = False, Time = 1\<rparr>)]\<rparr> = 1"
  using directory_upsert_delete_quantity
    [of "\<lparr>records = [(''a'', \<lparr>Key = ''a'', rec_Kind = ''generic'',
            rec_Proximity = ''far'', Registered = False, Time = 1\<rparr>)]\<rparr>"
        "[]" 7
        "GenericPeripheral \<lparr>pb_key = ''a'', pb_kind = ''generic'',
            pb_proximity = ''near'', pb_accuracy = Finite False 3 (- 1)\<rparr>" True]
  by (simp add: UniqueKey_def Kind_def Proximity_def Quantity_def on_found_def)

text \<open>
  C1. \<open>GetRecords\<close> evaluated after two found events for the key K, the second with another
  proximity: the map holds one Record for K, with the later attributes, and
  \<open>GetRecords(0, 0)\<close> and \<open>GetRecords(1, 0)\<close> both return the empty sequence, on every
  platform that can allocate a slice of capacity one.
\<close>

theorem GetRecords_after_found_returns_nothing:
  "(case deliver_all
      [Found 1 (GenericPeripheral \<lparr>pb_key = ''K'', pb_kind = ''generic'',
                  pb_proximity = ''far'', pb_accuracy = Finite False 3 (- 1)\<rparr>) False,
       Found 2 (GenericPeripheral \<lparr>pb_key = ''K'', pb_kind = ''generic'',
                  pb_proximity = ''near'', pb_accuracy = Finite False 3 (- 1)\<rparr>) True]
      NewService of
      Inl e \<Rightarrow> False
    | Inr s \<Rightarrow>
        records s = [(''K'', \<lparr>Key = ''K'', rec_Kind = ''generic'', rec_Proximity = ''near'',
                              Registered = True, Time = 2\<rparr>)]
        \<and> Quantity s = 1
        \<and> GetRecords (\<lambda>xs. xs) max_cap 0 0 s
            = (if 1 \<le> max_cap then Inr [] else Inl MakesliceCapOutOfRange)
        \<and> GetRecords (\<lambda>xs. xs) max_cap 1 0 s
            = (if 1 \<le> max_cap then Inr [] else Inl MakesliceCapOutOfRange))"
  by (simp add: NewService_def on_found_def UniqueKey_def Kind_def Proximity_def
      Quantity_def GetRecords_def Let_def)


section \<open>Properties of the sender\<close>

subsection \<open>Validation of the event name\<close>

lemma isSupportedEventName_iff:
  "isSupportedEventName name \<longleftrightarrow> name \<in> {''found'', ''lost''}"
  by (auto simp add: isSupportedEventName_def)

text \<open>
  C7. For a message whose event name is neither "found" nor "lost" (the empty name
  included), \<open>Send\<close> returns the error for an unsupported event name and leaves the world
  as it was: the outside state is untouched and the trace has no new entry, so nothing was
  logged, no request was given to the transport and no listener was called.
\<close>

theorem Send_rejects_unsupported_event_name:
  "msg_EventName msg \<notin> {''found'', ''lost''} \<Longrightarrow>
     \<not> isSupportedEventName (msg_EventName msg)
     \<and> Send rt sender msg w = (Some (ErrUnsupportedEventName (msg_EventName msg)), w)"
  by (simp add: Send_def isSupportedEventName_iff)

theorem Send_rejects_unsupported_event_name_witness:
  "msg_EventName \<lparr>msg_EventName = [], msg_TargetName = ''door'', msg_Peripheral = None,
       msg_Subscribers = [\<lparr>sub_Name = ''s'', sub_Endpoint = None\<rparr>]\<rparr> \<notin> {''found'', ''lost''}
   \<and> Send sample_runtime \<lparr>listeners = [\<lparr>code_pointer = 1, captured = 0\<rparr>]\<rparr>
       \<lparr>msg_EventName = [], msg_TargetName = ''door'', msg_Peripheral = None,
        msg_Subscribers = [\<lparr>sub_Name = ''s'', sub_Endpoint = None\<rparr>]\<rparr>
       \<lparr>outside = 0, trace = []\<rparr>
     = (Some (ErrUnsupportedEventName []), \<lparr>outside = 0, trace = []\<rparr>)"
  using Send_rejects_unsupported_event_name
    [of "\<lparr>msg_EventName = [], msg_TargetName = ''door'', msg_Peripheral = None,
        msg_Subscribers = [\<lparr>sub_Name = ''s'', sub_Endpoint = None\<rparr>]\<rparr>"
        sample_runtime "\<lparr>listeners = [\<lparr>code_pointer = 1, captured = 0\<rparr>]\<rparr>"
        "\<lparr>outside = 0, trace = []\<rparr>"]
  by simp

subsection \<open>The listener registry\<close>

lemma RemoveEventListener_loop_no_match:
  "\<forall>x\<in>set ls. code_pointer x \<noteq> hp \<Longrightarrow> RemoveEventListener_loop hp i ls idx = idx"
  by (induction ls arbitrary: i) simp_all

lemma RemoveEventListener_loop_append:
  "RemoveEventListener_loop hp i (pre @ rest) idx =
     RemoveEventListener_loop hp (i + int (length pre)) rest
       (RemoveEventListener_loop hp i pre idx)"
  by (induction pre arbitrary: i idx) (simp_all add: add.assoc)

lemma RemoveEventListener_loop_last_match:
  assumes "code_pointer e = hp" and "\<forall>x\<in>set post. code_pointer x \<noteq> hp"
  shows "RemoveEventListener_loop hp 0 (pre @ e # post) idx = int (length pre)"
  using assms by (simp add: RemoveEventListener_loop_append RemoveEventListener_loop_no_match)

text \<open>
  C3, as the code has it. For a non-nil \<open>fn\<close>: when some listener has the code pointer of
  \<open>fn\<close>, the last such listener in the registry is removed (the registry is \<open>pre\<close>, that
  listener, then \<open>post\<close> in which none matches; afterwards it is \<open>pre\<close> then \<open>post\<close>) and
  the result is true; when no listener has that code pointer, the registry is unchanged and
  the result is false. Only code pointers are compared, not what the closures captured.
\<close>

theorem RemoveEventListener_removes_last_match:
  "(code_pointer e = code_pointer l \<and> (\<forall>x\<in>set post. code_pointer x \<noteq> code_pointer l)
      \<longrightarrow> RemoveEventListener (Some l) \<lparr>listeners = pre @ e # post\<rparr>
            = (True, \<lparr>listeners = pre @ post\<rparr>))
   \<and> ((\<forall>x\<in>set (listeners sender). code_pointer x \<noteq> code_pointer l)
      \<longrightarrow> RemoveEventListener (Some l) sender = (False, sender))"
  by (simp add: RemoveEventListener_def RemoveEventListener_loop_last_match
      RemoveEventListener_loop_no_match Let_def nat_add_distrib)

theorem RemoveEventListener_removes_last_match_witness:
  "(code_pointer \<lparr>code_pointer = 1, captured = 5\<rparr> = code_pointer \<lparr>code_pointer = 1, captured = 0\<rparr>
     \<and> list_all (\<lambda>x. code_pointer x \<noteq> code_pointer \<lparr>code_pointer = 1, captured = 0\<rparr>)
           [\<lparr>code_pointer = 3, captured = 0\<rparr>])
   \<and> RemoveEventListener (Some \<lparr>code_pointer = 1, captured = 0\<rparr>)
       \<lparr>listeners = [\<lparr>code_pointer = 1, captured = 0\<rparr>, \<lparr>code_pointer = 2, captured = 0\<rparr>,
                     \<lparr>code_pointer = 1, captured = 5\<rparr>, \<lparr>code_pointer = 3, captured = 0\<rparr>]\<rparr>
     = (True, \<lparr>listeners = [\<lparr>code_pointer = 1, captured = 0\<rparr>, \<lparr>code_pointer = 2, captured = 0\<rparr>,
                            \<lparr>code_pointer = 3, captured = 0\<rparr>]\<rparr>)
   \<and> list_all (\<lambda>x. code_pointer x \<noteq> code_pointer \<lparr>code_pointer = 1, captured = 0\<rparr>)
         (listeners \<lparr>listeners = [\<lparr>code_pointer = 2, captured = 0\<rparr>]\<rparr>)
   \<and> RemoveEventListener (Some \<lparr>code_pointer = 1, captured = 0\<rparr>)
       \<lparr>listeners = [\<lparr>code_pointer = 2, captured = 0\<rparr>]\<rparr>
     = (False, \<lparr>listeners = [\<lparr>code_pointer = 2, captured = 0\<rparr>]\<rparr>)"
  using RemoveEventListener_removes_last_match
    [of "\<lparr>code_pointer = 1, captured = 5\<rparr>" "\<lparr>code_pointer = 1, captured = 0\<rparr>"
        "[\<lparr>code_pointer = 3, captured = 0\<rparr>]"
        "[\<lparr>code_pointer = 1, captured = 0\<rparr>, \<lparr>code_pointer = 2, captured = 0\<rparr>]"
        "\<lparr>listeners = [\<lparr>code_pointer = 2, captured = 0\<rparr>]\<rparr>"]
  by simp

text \<open>
  The registry holds \<open>f\<close>, \<open>g\<close>, \<open>f\<close>. Removing \<open>f\<close> leaves \<open>f\<close>, \<open>g\<close>: the second \<open>f\<close> went.
  Removing the first listener that matches would leave \<open>g\<close>, \<open>f\<close>.
\<close>

theorem RemoveEventListener_first_match_counterexample:
  "RemoveEventListener (Some \<lparr>code_pointer = 1, captured = 0\<rparr>)
     \<lparr>listeners = [\<lparr>code_pointer = 1, captured = 0\<rparr>, \<lparr>code_pointer = 2, captured = 0\<rparr>,
                   \<lparr>code_pointer = 1, captured = 0\<rparr>]\<rparr>
   = (True, \<lparr>listeners = [\<lparr>code_pointer = 1, captured = 0\<rparr>, \<lparr>code_pointer = 2, captured = 0\<rparr>]\<rparr>)
   \<and> RemoveEventListener (Some \<lparr>code_pointer = 1, captured = 0\<rparr>)
     \<lparr>listeners = [\<lparr>code_pointer = 1, captured = 0\<rparr>, \<lparr>code_pointer = 2, captured = 0\<rparr>,
                   \<lparr>code_pointer = 1, captured = 0\<rparr>]\<rparr>
   \<noteq> (True, \<lparr>listeners = remove_first_match 1
        [\<lparr>code_pointer = 1, captured = 0\<rparr>, \<lparr>code_pointer = 2, captured = 0\<rparr>,
         \<lparr>code_pointer = 1, captured = 0\<rparr>]\<rparr>)"
  by (simp add: RemoveEventListener_def)


subsection \<open>Decimal strings\<close>

lemma digit_char_is_digit: "d < 10 \<Longrightarrow> is_digit (digit_char d)"
  unfolding is_digit_def digit_char_def by (rule nth_mem) simp

lemma Itoa_nat_digits: "list_all is_digit (Itoa_nat n)"
proof (induction n rule: Itoa_nat.induct)
  case (1 n)
  show ?case
  proof (cases "n < 10")
    case True
    then show ?thesis by (subst Itoa_nat.simps) (simp add: digit_char_is_digit)
  next
    case False
    with 1 have "list_all is_digit (Itoa_nat (n div 10))" by simp
    moreover have "is_digit (digit_char (n mod 10))" by (rule digit_char_is_digit) simp
    ultimately show ?thesis using False by (subst Itoa_nat.simps) simp
  qed
qed

lemma Itoa_nat_nonempty: "Itoa_nat n \<noteq> []"
  by (subst Itoa_nat.simps) simp

lemma Itoa_nat_length: "n < 10 ^ Suc k \<Longrightarrow> length (Itoa_nat n) \<le> Suc k"
proof (induction k arbitrary: n)
  case 0
  then show ?case by (subst Itoa_nat.simps) simp
next
  case (Suc k)
  show ?case
  proof (cases "n < 10")
    case True
    then show ?thesis by (subst Itoa_nat.simps) simp
  next
    case False
    from Suc.prems have "n div 10 < 10 ^ Suc k" by simp
    then have "length (Itoa_nat (n div 10)) \<le> Suc k" by (rule Suc.IH)
    then show ?thesis using False by (subst Itoa_nat.simps) simp
  qed
qed

lemma pad6_shape: "n < 1000000 \<Longrightarrow> length (pad6 n) = 6 \<and> list_all is_digit (pad6 n)"
proof -
  assume "n < 1000000"
  then have "n < 10 ^ Suc 5" by simp
  then have "length (Itoa_nat n) \<le> 6" using Itoa_nat_length [of n 5] by simp
  moreover have "is_digit CHR ''0''" by (simp add: is_digit_def)
  ultimately show ?thesis
    using Itoa_nat_digits [of n] by (auto simp add: pad6_def list_all_iff)
qed



lemma Itoa_nat_small: "n < 10 \<Longrightarrow> Itoa_nat n = [digit_char n]"
  by (subst Itoa_nat.simps) simp

lemma Itoa_nat_step: "10 \<le> n \<Longrightarrow> Itoa_nat n = Itoa_nat (n div 10) @ [digit_char (n mod 10)]"
  by (subst Itoa_nat.simps) simp

lemma replicate_numeral: "replicate (numeral k) x = x # replicate (pred_numeral k) x"
  by (simp add: numeral_eq_Suc)

lemmas Itoa_eval = Itoa_nat_small Itoa_nat_step digit_char_def Itoa_def pad6_def
  round_half_even_def replicate_numeral


subsection \<open>Serialization of a peripheral\<close>

lemma serializePeripheral_generic:
  "Kind p \<noteq> PERIPHERAL_IBEACON \<Longrightarrow>
     serializePeripheral name (Some p) =
       Inr [(''name'', name), (''kind'', Kind p), (''proximity'', Proximity p),
            (''accuracy'', FormatFloat_f6 (Accuracy p))]"
  by (simp add: serializePeripheral_def)

lemma serializePeripheral_ibeacon:
  "Kind (IBeaconPeripheral b uuid major minor) = PERIPHERAL_IBEACON \<Longrightarrow>
     serializePeripheral name (Some (IBeaconPeripheral b uuid major minor)) =
       Inr [(''name'', name), (''kind'', Kind (IBeaconPeripheral b uuid major minor)),
            (''proximity'', Proximity (IBeaconPeripheral b uuid major minor)),
            (''accuracy'', FormatFloat_f6 (Accuracy (IBeaconPeripheral b uuid major minor))),
            (''uuid'', uuid), (''major'', Itoa (uint major)), (''minor'', Itoa (uint minor))]"
  by (simp add: serializePeripheral_def)

lemma serializePeripheral_mismatch:
  "Kind (GenericPeripheral b) = PERIPHERAL_IBEACON \<Longrightarrow>
     serializePeripheral name (Some (GenericPeripheral b)) =
       Inl (ErrUnableToSerializePeripheral (UniqueKey (GenericPeripheral b)))"
  by (simp add: serializePeripheral_def)

lemma digit_val_digit_char: "d < 10 \<Longrightarrow> digit_val (digit_char d) = d"
proof -
  assume "d < 10"
  then have "d \<in> {0, 1, 2, 3, 4, 5, 6, 7, 8, 9}" by auto
  then show ?thesis by (auto simp add: digit_val_def digit_char_def)
qed

lemma digits_value_snoc: "digits_value (xs @ [c]) = 10 * digits_value xs + digit_val c"
  by (simp add: digits_value_def)

lemma digits_value_Itoa_nat: "digits_value (Itoa_nat n) = n"
proof (induction n rule: Itoa_nat.induct)
  case (1 n)
  show ?case
  proof (cases "n < 10")
    case True
    then show ?thesis
      by (simp add: Itoa_nat_small digits_value_def digit_val_digit_char)
  next
    case False
    with 1 have "digits_value (Itoa_nat (n div 10)) = n div 10" by simp
    moreover have "digit_val (digit_char (n mod 10)) = n mod 10"
      by (rule digit_val_digit_char) simp
    ultimately show ?thesis using False
      by (simp add: Itoa_nat_step digits_value_snoc)
  qed
qed

lemma digits_value_append:
  "digits_value (xs @ ys) = digits_value xs * 10 ^ length ys + digits_value ys"
proof (induction ys rule: rev_induct)
  case Nil
  show ?case by (simp add: digits_value_def)
next
  case (snoc c ys)
  have "digits_value (xs @ ys @ [c]) = 10 * digits_value (xs @ ys) + digit_val c"
    using digits_value_snoc [of "xs @ ys" c] by simp
  with snoc show ?case by (simp add: digits_value_snoc algebra_simps)
qed

lemma digits_value_zeros: "digits_value (replicate k CHR ''0'') = 0"
proof (induction k)
  case 0
  show ?case by (simp add: digits_value_def)
next
  case (Suc k)
  have "replicate (Suc k) CHR ''0'' = replicate k CHR ''0'' @ [CHR ''0'']"
    by (simp add: replicate_append_same)
  moreover have "digit_val CHR ''0'' = 0" by (simp add: digit_val_def)
  ultimately show ?case using Suc by (simp only: digits_value_snoc)
qed

lemma digits_value_pad6: "digits_value (pad6 n) = n"
  by (simp add: pad6_def digits_value_append digits_value_zeros digits_value_Itoa_nat)

lemma digits_value_fixed:
  assumes "r < 1000000"
  shows "digits_value (Itoa_nat q @ pad6 r) = q * 1000000 + r"
proof -
  from assms have "length (pad6 r) = 6" using pad6_shape by blast
  then show ?thesis
    by (simp add: digits_value_append digits_value_pad6 digits_value_Itoa_nat)
qed

lemma round_half_even_near:
  assumes "0 < den"
  shows "2 * \<bar>int (round_half_even num den) * int den - int num\<bar> \<le> int den"
proof -
  define q where "q = num div den"
  define r where "r = num mod den"
  have num: "int num = int q * int den + int r"
    unfolding q_def r_def by (metis div_mult_mod_eq of_nat_add of_nat_mult)
  have r: "r < den" unfolding r_def using assms by simp
  show ?thesis
  proof (cases "2 * r > den \<or> (2 * r = den \<and> odd q)")
    case True
    then have "round_half_even num den = q + 1"
      by (simp add: round_half_even_def q_def r_def Let_def)
    then have "int (round_half_even num den) * int den - int num = int den - int r"
      by (simp add: num algebra_simps)
    moreover from True have "int den \<le> 2 * int r" by auto
    ultimately show ?thesis using r by simp
  next
    case False
    then have "round_half_even num den = q"
      by (simp add: round_half_even_def q_def r_def Let_def)
    then have "int (round_half_even num den) * int den - int num = - int r"
      by (simp add: num)
    moreover from False have "2 * int r \<le> int den" by auto
    ultimately show ?thesis by simp
  qed
qed

lemma FormatFloat_f6_value:
  "\<exists>ip frac. FormatFloat_f6 (Finite neg mant e) = (if neg then ''-'' else []) @ ip @ ''.'' @ frac
     \<and> ip \<noteq> [] \<and> list_all is_digit ip \<and> length frac = 6 \<and> list_all is_digit frac
     \<and> nearest_micro mant e (digits_value (ip @ frac))"
proof -
  define scaled where "scaled = (if 0 \<le> e then mant * 1000000 * 2 ^ nat e
                    else round_half_even (mant * 1000000) (2 ^ nat (- e)))"
  define ip where "ip = Itoa_nat (scaled div 1000000)"
  define frac where "frac = pad6 (scaled mod 1000000)"
  have eq: "FormatFloat_f6 (Finite neg mant e) = (if neg then ''-'' else []) @ ip @ ''.'' @ frac"
    unfolding scaled_def ip_def frac_def FormatFloat_f6.simps Let_def ..
  have lt: "scaled mod 1000000 < 1000000" by simp
  then have fr: "length frac = 6 \<and> list_all is_digit frac"
    unfolding frac_def by (rule pad6_shape)
  have ipn: "ip \<noteq> []" unfolding ip_def by (rule Itoa_nat_nonempty)
  have ipd: "list_all is_digit ip" unfolding ip_def by (rule Itoa_nat_digits)
  have val: "digits_value (ip @ frac) = scaled"
    unfolding ip_def frac_def using digits_value_fixed [OF lt, of "scaled div 1000000"] by simp
  have near: "nearest_micro mant e scaled"
  proof (cases "0 \<le> e")
    case True
    then show ?thesis by (simp add: nearest_micro_def scaled_def)
  next
    case False
    have "2 * \<bar>int (round_half_even (mant * 1000000) (2 ^ nat (- e))) * int (2 ^ nat (- e))
             - int (mant * 1000000)\<bar> \<le> int (2 ^ nat (- e))"
      by (rule round_half_even_near) simp
    with False show ?thesis by (simp add: nearest_micro_def scaled_def)
  qed
  from eq ipn ipd fr val near show ?thesis by auto
qed


text \<open>
  C5. For a non-nil peripheral whose accuracy is a finite number, the \<open>neg\<close>, \<open>mant\<close>,
  \<open>e\<close> of \<open>(-1)^neg * mant * 2^e\<close>, and whose kind is "ibeacon" exactly when it is an
  \<open>*IBeaconPeripheral\<close>, serialization returns a mapping with name, kind, proximity and
  accuracy. The accuracy entry is the formatting of the peripheral's accuracy: a minus
  sign exactly when the accuracy is negative, at least one digit, a point and exactly six
  digits, and the number these digits write, in millionths, is a nearest one to the
  accuracy. For an ibeacon the mapping also has uuid, major and minor, the last two being
  the decimal digits of the peripheral's major and minor, and no other key; for any other
  peripheral it has the four keys only. Serialization fails with an error when the
  peripheral is nil, and when the kind is "ibeacon" and the peripheral is not an
  \<open>*IBeaconPeripheral\<close>. The accuracy 1.5 is rendered as 1.500000.
\<close>

theorem serializePeripheral_fields:
  "(Accuracy p = Finite neg mant e \<and> (Kind p = PERIPHERAL_IBEACON \<longleftrightarrow> is_IBeacon p) \<longrightarrow>
      (\<exists>m ip frac.
         serializePeripheral name (Some p) = Inr m
         \<and> map_of m ''name'' = Some name
         \<and> map_of m ''kind'' = Some (Kind p)
         \<and> map_of m ''proximity'' = Some (Proximity p)
         \<and> map_of m ''accuracy'' = Some (FormatFloat_f6 (Accuracy p))
         \<and> FormatFloat_f6 (Accuracy p) = (if neg then ''-'' else []) @ ip @ ''.'' @ frac
         \<and> ip \<noteq> [] \<and> list_all is_digit ip
         \<and> length frac = 6 \<and> list_all is_digit frac
         \<and> nearest_micro mant e (digits_value (ip @ frac))
         \<and> (case p of
               IBeaconPeripheral b uuid major minor \<Rightarrow>
                 map_of m ''uuid'' = Some uuid
                 \<and> map_of m ''major'' = Some (Itoa (uint major))
                 \<and> map_of m ''minor'' = Some (Itoa (uint minor))
                 \<and> list_all is_digit (Itoa (uint major))
                 \<and> digits_value (Itoa (uint major)) = unat major
                 \<and> list_all is_digit (Itoa (uint minor))
                 \<and> digits_value (Itoa (uint minor)) = unat minor
                 \<and> dom (map_of m) =
                     {''name'', ''kind'', ''proximity'', ''accuracy'', ''uuid'', ''major'', ''minor''}
             | GenericPeripheral b \<Rightarrow>
                 dom (map_of m) = {''name'', ''kind'', ''proximity'', ''accuracy''})))
   \<and> serializePeripheral name None = Inl ErrMissedPeripheral
   \<and> (Kind p = PERIPHERAL_IBEACON \<and> \<not> is_IBeacon p \<longrightarrow>
        serializePeripheral name (Some p) = Inl (ErrUnableToSerializePeripheral (UniqueKey p)))
   \<and> FormatFloat_f6 (Finite False 3 (- 1)) = ''1.500000''"
proof (intro conjI impI)
  assume a: "Accuracy p = Finite neg mant e \<and> (Kind p = PERIPHERAL_IBEACON \<longleftrightarrow> is_IBeacon p)"
  obtain ip frac where f:
    "FormatFloat_f6 (Accuracy p) = (if neg then ''-'' else []) @ ip @ ''.'' @ frac"
    "ip \<noteq> []" "list_all is_digit ip" "length frac = 6" "list_all is_digit frac"
    "nearest_micro mant e (digits_value (ip @ frac))"
    using FormatFloat_f6_value [of neg mant e] a by auto
  have u: "list_all is_digit (Itoa (uint x)) \<and> digits_value (Itoa (uint x)) = unat x"
    for x :: "16 word"
    by (simp add: Itoa_def Itoa_nat_digits digits_value_Itoa_nat)
  show "\<exists>m ip frac.
         serializePeripheral name (Some p) = Inr m
         \<and> map_of m ''name'' = Some name
         \<and> map_of m ''kind'' = Some (Kind p)
         \<and> map_of m ''proximity'' = Some (Proximity p)
         \<and> map_of m ''accuracy'' = Some (FormatFloat_f6 (Accuracy p))
         \<and> FormatFloat_f6 (Accuracy p) = (if neg then ''-'' else []) @ ip @ ''.'' @ frac
         \<and> ip \<noteq> [] \<and> list_all is_digit ip
         \<and> length frac = 6 \<and> list_all is_digit frac
         \<and> nearest_micro mant e (digits_value (ip @ frac))
         \<and> (case p of
               IBeaconPeripheral b uuid major minor \<Rightarrow>
                 map_of m ''uuid'' = Some uuid
                 \<and> map_of m ''major'' = Some (Itoa (uint major))
                 \<and> map_of m ''minor'' = Some (Itoa (uint minor))
                 \<and> list_all is_digit (Itoa (uint major))
                 \<and> digits_value (Itoa (uint major)) = unat major
                 \<and> list_all is_digit (Itoa (uint minor))
                 \<and> digits_value (Itoa (uint minor)) = unat minor
                 \<and> dom (map_of m) =
                     {''name'', ''kind'', ''proximity'', ''accuracy'', ''uuid'', ''major'', ''minor''}
             | GenericPeripheral b \<Rightarrow>
                 dom (map_of m) = {''name'', ''kind'', ''proximity'', ''accuracy''})"
  proof (cases p)
    case (GenericPeripheral b)
    with a have "Kind p \<noteq> PERIPHERAL_IBEACON" by simp
    then have s: "serializePeripheral name (Some p) =
       Inr [(''name'', name), (''kind'', Kind p), (''proximity'', Proximity p),
            (''accuracy'', FormatFloat_f6 (Accuracy p))]"
      by (rule serializePeripheral_generic)
    have "dom (map_of [(''name'', name), (''kind'', Kind p), (''proximity'', Proximity p),
            (''accuracy'', FormatFloat_f6 (Accuracy p))])
        = {''name'', ''kind'', ''proximity'', ''accuracy''}"
      by auto
    with s f GenericPeripheral show ?thesis
      by (intro exI [of _ "[(''name'', name), (''kind'', Kind p), (''proximity'', Proximity p),
            (''accuracy'', FormatFloat_f6 (Accuracy p))]"] exI [of _ ip] exI [of _ frac]) simp
  next
    case (IBeaconPeripheral b uuid major minor)
    with a have "Kind (IBeaconPeripheral b uuid major minor) = PERIPHERAL_IBEACON" by simp
    then have s: "serializePeripheral name (Some p) =
       Inr [(''name'', name), (''kind'', Kind p), (''proximity'', Proximity p),
            (''accuracy'', FormatFloat_f6 (Accuracy p)),
            (''uuid'', uuid), (''major'', Itoa (uint major)), (''minor'', Itoa (uint minor))]"
      using IBeaconPeripheral by (simp add: serializePeripheral_ibeacon)
    have "dom (map_of [(''name'', name), (''kind'', Kind p), (''proximity'', Proximity p),
            (''accuracy'', FormatFloat_f6 (Accuracy p)),
            (''uuid'', uuid), (''major'', Itoa (uint major)), (''minor'', Itoa (uint minor))])
        = {''name'', ''kind'', ''proximity'', ''accuracy'', ''uuid'', ''major'', ''minor''}"
      by auto
    with s f IBeaconPeripheral u [of major] u [of minor] show ?thesis
      by (intro exI [of _ "[(''name'', name), (''kind'', Kind p), (''proximity'', Proximity p),
            (''accuracy'', FormatFloat_f6 (Accuracy p)),
            (''uuid'', uuid), (''major'', Itoa (uint major)), (''minor'', Itoa (uint minor))]"]
            exI [of _ ip] exI [of _ frac]) simp
  qed
next
  show "serializePeripheral name None = Inl ErrMissedPeripheral"
    by (simp add: serializePeripheral_def)
next
  assume "Kind p = PERIPHERAL_IBEACON \<and> \<not> is_IBeacon p"
  then show "serializePeripheral name (Some p) = Inl (ErrUnableToSerializePeripheral (UniqueKey p))"
    by (cases p) (simp_all add: serializePeripheral_mismatch)
next
  show "FormatFloat_f6 (Finite False 3 (- 1)) = ''1.500000''"
    by (simp add: Itoa_eval)
qed

theorem serializePeripheral_fields_witness:
  "(Accuracy (IBeaconPeripheral \<lparr>pb_key = ''k'', pb_kind = ''ibeacon'',
        pb_proximity = ''near'', pb_accuracy = Finite False 3 (- 2)\<rparr> ''U1'' 1 2)
      = Finite False 3 (- 2)
    \<and> (Kind (IBeaconPeripheral \<lparr>pb_key = ''k'', pb_kind = ''ibeacon'',
          pb_proximity = ''near'', pb_accuracy = Finite False 3 (- 2)\<rparr> ''U1'' 1 2)
          = PERIPHERAL_IBEACON
        \<longleftrightarrow> is_IBeacon (IBeaconPeripheral \<lparr>pb_key = ''k'', pb_kind = ''ibeacon'',
          pb_proximity = ''near'', pb_accuracy = Finite False 3 (- 2)\<rparr> ''U1'' 1 2)))
   \<and> serializePeripheral ''door'' (Some (IBeaconPeripheral \<lparr>pb_key = ''k'',
        pb_kind = ''ibeacon'', pb_proximity = ''near'',
        pb_accuracy = Finite False 3 (- 2)\<rparr> ''U1'' 1 2))
     = Inr [(''name'', ''door''), (''kind'', ''ibeacon''), (''proximity'', ''near''),
            (''accuracy'', ''0.750000''), (''uuid'', ''U1''), (''major'', ''1''),
            (''minor'', ''2'')]
   \<and> nearest_micro 3 (- 2) (digits_value ''0750000'')
   \<and> (Accuracy (GenericPeripheral \<lparr>pb_key = ''h'', pb_kind = ''generic'',
          pb_proximity = ''far'', pb_accuracy = Finite False 3 (- 1)\<rparr>) = Finite False 3 (- 1)
      \<and> (Kind (GenericPeripheral \<lparr>pb_key = ''h'', pb_kind = ''generic'',
            pb_proximity = ''far'', pb_accuracy = Finite False 3 (- 1)\<rparr>) = PERIPHERAL_IBEACON
          \<longleftrightarrow> is_IBeacon (GenericPeripheral \<lparr>pb_key = ''h'', pb_kind = ''generic'',
            pb_proximity = ''far'', pb_accuracy = Finite False 3 (- 1)\<rparr>)))
   \<and> serializePeripheral ''door'' (Some (GenericPeripheral \<lparr>pb_key = ''h'',
        pb_kind = ''generic'', pb_proximity = ''far'', pb_accuracy = Finite False 3 (- 1)\<rparr>))
     = Inr [(''name'', ''door''), (''kind'', ''generic''), (''proximity'', ''far''),
            (''accuracy'', ''1.500000'')]
   \<and> (Kind (GenericPeripheral \<lparr>pb_key = ''g'', pb_kind = ''ibeacon'',
          pb_proximity = ''far'', pb_accuracy = Finite False 3 (- 1)\<rparr>) = PERIPHERAL_IBEACON
        \<and> \<not> is_IBeacon (GenericPeripheral \<lparr>pb_key = ''g'', pb_kind = ''ibeacon'',
          pb_proximity = ''far'', pb_accuracy = Finite False 3 (- 1)\<rparr>))
   \<and> serializePeripheral ''door'' (Some (GenericPeripheral \<lparr>pb_key = ''g'',
        pb_kind = ''ibeacon'', pb_proximity = ''far'', pb_accuracy = Finite False 3 (- 1)\<rparr>))
     = Inl (ErrUnableToSerializePeripheral ''g'')"
  using serializePeripheral_fields
    [where p = "IBeaconPeripheral \<lparr>pb_key = ''k'', pb_kind = ''ibeacon'',
          pb_proximity = ''near'', pb_accuracy = Finite False 3 (- 2)\<rparr> ''U1'' 1 2"
       and name = "''door''" and neg = False and mant = 3 and e = "- 2"]
    serializePeripheral_fields
    [where p = "GenericPeripheral \<lparr>pb_key = ''h'', pb_kind = ''generic'',
          pb_proximity = ''far'', pb_accuracy = Finite False 3 (- 1)\<rparr>"
       and name = "''door''" and neg = False and mant = 3 and e = "- 1"]
    serializePeripheral_fields
    [where p = "GenericPeripheral \<lparr>pb_key = ''g'', pb_kind = ''ibeacon'',
          pb_proximity = ''far'', pb_accuracy = Finite False 3 (- 1)\<rparr>"
       and name = "''door''" and neg = False and mant = 3 and e = "- 1"]
  by (simp add: serializePeripheral_def Kind_def Proximity_def Accuracy_def UniqueKey_def
      PERIPHERAL_IBEACON_def Itoa_eval nearest_micro_def digits_value_def digit_val_def)

subsection \<open>The query encoder\<close>

lemma encode_loop_concat:
  "encode_loop esc xs buf = buf @ concat (map (\<lambda>(k, v). esc k @ ''='' @ v @ ''&'') xs)"
  by (induction xs arbitrary: buf) auto

lemma concat_amp_join:
  "xs \<noteq> [] \<Longrightarrow> concat (map (\<lambda>x. x @ ''&'') xs) = join_amp xs @ ''&''"
  by (induction xs rule: join_amp.induct) simp_all

lemma encode_loop_join:
  assumes "xs \<noteq> []"
  shows "encode_loop esc xs [] = join_amp (map (\<lambda>(k, v). esc k @ ''='' @ v) xs) @ ''&''"
proof -
  have "concat (map (\<lambda>(k, v). esc k @ ''='' @ v @ ''&'') xs)
      = concat (map (\<lambda>x. x @ ''&'') (map (\<lambda>(k, v). esc k @ ''='' @ v) xs))"
    by (simp add: comp_def case_prod_unfold)
  also have "\<dots> = join_amp (map (\<lambda>(k, v). esc k @ ''='' @ v) xs) @ ''&''"
    using assms concat_amp_join [of "map (\<lambda>(k, v). esc k @ ''='' @ v) xs"] by simp
  finally show ?thesis by (simp add: encode_loop_concat)
qed

lemma encode_nonempty:
  "range_map rt data \<noteq> [] \<Longrightarrow>
     encode rt data =
       Inr (join_amp (map (\<lambda>(k, v). url_QueryEscape rt k @ ''='' @ v) (range_map rt data)))"
  by (simp add: encode_def encode_loop_join Let_def)

lemma encode_empty: "range_map rt data = [] \<Longrightarrow> encode rt data = Inl SliceBoundsOutOfRange"
  by (simp add: encode_def)

lemma range_map_empty_iff:
  "range_visits_each_once rt \<Longrightarrow> range_map rt m = [] \<longleftrightarrow> m = []"
  unfolding range_visits_each_once_def by (metis mset_zero_iff)

lemma range_map_set: "range_visits_each_once rt \<Longrightarrow> set (range_map rt m) = set m"
  unfolding range_visits_each_once_def by (metis set_mset_mset)

lemma serializePeripheral_Inr_keys:
  assumes "serializePeripheral name peripheral = Inr m"
  shows "m \<noteq> [] \<and> {''name'', ''kind'', ''proximity'', ''accuracy''} \<subseteq> dom (map_of m)"
proof -
  from assms obtain p where p: "peripheral = Some p"
    by (cases peripheral) (simp_all add: serializePeripheral_def)
  show ?thesis
  proof (cases "Kind p = PERIPHERAL_IBEACON")
    case False
    with assms p show ?thesis by (auto simp add: serializePeripheral_generic)
  next
    case True
    with assms p show ?thesis
      by (cases p) (auto simp add: serializePeripheral_ibeacon serializePeripheral_mismatch)
  qed
qed

lemma sendSingle_returns:
  assumes "range_visits_each_once rt"
  shows "\<exists>r. fst (sendSingle rt name peripheral subscriber w) = Inr r"
proof (cases "serializePeripheral name peripheral")
  case (Inl err)
  then show ?thesis by (simp add: sendSingle_def)
next
  case (Inr m)
  then have "m \<noteq> []" using serializePeripheral_Inr_keys by blast
  with assms have "range_map rt m \<noteq> []" by (simp add: range_map_empty_iff)
  then have enc: "encode rt m =
       Inr (join_amp (map (\<lambda>(k, v). url_QueryEscape rt k @ ''='' @ v) (range_map rt m)))"
    by (rule encode_nonempty)
  show ?thesis
    by (simp add: sendSingle_def call_transport_def Inr enc Let_def
        split: option.splits sum.splits prod.splits)
qed

text \<open>
  C10. Provided \<open>range\<close> visits every entry of a map once: \<open>encode\<close> applied to the
  empty field mapping panics, its slice running to \<open>-1\<close>; whenever serialization returns
  a mapping, the mapping has the keys name, kind, proximity and accuracy, so it is not
  empty and \<open>encode\<close> returns a query for it; and \<open>sendSingle\<close>, the only caller of
  \<open>encode\<close>, never panics, for any peripheral, subscriber and world.
\<close>

theorem encode_trim_unreachable:
  assumes "range_visits_each_once rt"
  shows "encode rt [] = Inl SliceBoundsOutOfRange
    \<and> (serializePeripheral name peripheral = Inr m \<longrightarrow>
         {''name'', ''kind'', ''proximity'', ''accuracy''} \<subseteq> dom (map_of m) \<and> m \<noteq> []
         \<and> (\<exists>query. encode rt m = Inr query))
    \<and> (\<exists>r. fst (sendSingle rt name peripheral subscriber w) = Inr r)"
proof (intro conjI impI)
  from assms have "range_map rt [] = []" by (simp add: range_map_empty_iff)
  then show "encode rt [] = Inl SliceBoundsOutOfRange" by (rule encode_empty)
next
  assume m: "serializePeripheral name peripheral = Inr m"
  then show "{''name'', ''kind'', ''proximity'', ''accuracy''} \<subseteq> dom (map_of m)"
    using serializePeripheral_Inr_keys by blast
  from m show "m \<noteq> []" using serializePeripheral_Inr_keys by blast
  with assms have "range_map rt m \<noteq> []" by (simp add: range_map_empty_iff)
  then show "\<exists>query. encode rt m = Inr query" by (simp add: encode_nonempty)
next
  show "\<exists>r. fst (sendSingle rt name peripheral subscriber w) = Inr r"
    using assms by (rule sendSingle_returns)
qed

theorem encode_trim_unreachable_witness:
  "range_visits_each_once sample_runtime
   \<and> encode sample_runtime [] = Inl SliceBoundsOutOfRange
   \<and> serializePeripheral ''door'' (Some (GenericPeripheral \<lparr>pb_key = ''g'',
        pb_kind = ''generic'', pb_proximity = ''far'', pb_accuracy = Finite False 3 (- 1)\<rparr>))
     = Inr [(''name'', ''door''), (''kind'', ''generic''), (''proximity'', ''far''),
            (''accuracy'', ''1.500000'')]
   \<and> encode sample_runtime [(''name'', ''door''), (''kind'', ''generic''),
        (''proximity'', ''far''), (''accuracy'', ''1.500000'')]
     = Inr ''name=door&kind=generic&proximity=far&accuracy=1.500000''"
proof -
  have r: "range_visits_each_once sample_runtime"
    by (simp add: range_visits_each_once_def sample_runtime_def)
  have s: "serializePeripheral ''door'' (Some (GenericPeripheral \<lparr>pb_key = ''g'',
        pb_kind = ''generic'', pb_proximity = ''far'', pb_accuracy = Finite False 3 (- 1)\<rparr>))
     = Inr [(''name'', ''door''), (''kind'', ''generic''), (''proximity'', ''far''),
            (''accuracy'', ''1.500000'')]"
    by (simp add: serializePeripheral_def Kind_def Proximity_def Accuracy_def
        PERIPHERAL_IBEACON_def Itoa_eval)
  have e: "encode sample_runtime [(''name'', ''door''), (''kind'', ''generic''),
        (''proximity'', ''far''), (''accuracy'', ''1.500000'')]
     = Inr ''name=door&kind=generic&proximity=far&accuracy=1.500000''"
    by (simp add: encode_def sample_runtime_def)
  from encode_trim_unreachable [OF r, of "''door''"
      "Some (GenericPeripheral \<lparr>pb_key = ''g'', pb_kind = ''generic'',
         pb_proximity = ''far'', pb_accuracy = Finite False 3 (- 1)\<rparr>)"
      "[(''name'', ''door''), (''kind'', ''generic''), (''proximity'', ''far''),
        (''accuracy'', ''1.500000'')]"] r s e
  show ?thesis by simp
qed


subsection \<open>The branches of a single delivery and the batch loop\<close>

lemma sent_requests_append: "sent_requests (a @ b) = sent_requests a @ sent_requests b"
  by (induction a rule: sent_requests.induct) simp_all

lemma listener_calls_append: "listener_calls (a @ b) = listener_calls a @ listener_calls b"
  by (induction a rule: listener_calls.induct) simp_all

lemma sendSingle_serialization_error:
  "serializePeripheral name peripheral = Inl err \<Longrightarrow>
     sendSingle rt name peripheral subscriber w
       = (Inr (Some err), logged LogError (ErrorText err) w)"
  by (simp add: sendSingle_def)

lemma sendSingle_no_endpoint:
  "serializePeripheral name peripheral = Inr m \<Longrightarrow> sub_Endpoint subscriber = None \<Longrightarrow>
     sendSingle rt name peripheral subscriber w
       = (Inr None, logged LogWarn (Text ''subscriber has no endpoints'') w)"
  by (simp add: sendSingle_def)

lemma sendSingle_empty_url:
  "serializePeripheral name peripheral = Inr m \<Longrightarrow> sub_Endpoint subscriber = Some endpoint
    \<Longrightarrow> ep_Url endpoint = [] \<Longrightarrow>
     sendSingle rt name peripheral subscriber w
       = (Inr (Some ErrEmptyUrl), logged LogError (Text ''endpoint has an empty url: %s'') w)"
  by (simp add: sendSingle_def)

lemma sendSingle_request_error:
  "serializePeripheral name peripheral = Inr m \<Longrightarrow> sub_Endpoint subscriber = Some endpoint
    \<Longrightarrow> ep_Url endpoint \<noteq> []
    \<Longrightarrow> NewRequest_error rt (strings_ToUpper rt (ep_Method endpoint)) (ep_Url endpoint) = Some e
    \<Longrightarrow> sendSingle rt name peripheral subscriber w
       = (Inr (Some (ErrRequestCreation e)),
          logged LogError (Text ''failed to create a new request'') w)"
  by (simp add: sendSingle_def http_NewRequest_def)

lemma sendSingle_marshal_error:
  "serializePeripheral name peripheral = Inr m \<Longrightarrow> sub_Endpoint subscriber = Some endpoint
    \<Longrightarrow> ep_Url endpoint \<noteq> []
    \<Longrightarrow> NewRequest_error rt (strings_ToUpper rt (ep_Method endpoint)) (ep_Url endpoint) = None
    \<Longrightarrow> strings_ToUpper rt (ep_Method endpoint) = ''POST''
    \<Longrightarrow> json_Marshal rt m = Inl e
    \<Longrightarrow> sendSingle rt name peripheral subscriber w = (Inr (Some (ErrMarshal e)), w)"
  by (simp add: sendSingle_def http_NewRequest_def)

lemma sendSingle_post:
  "serializePeripheral name peripheral = Inr m \<Longrightarrow> sub_Endpoint subscriber = Some endpoint
    \<Longrightarrow> ep_Url endpoint \<noteq> []
    \<Longrightarrow> NewRequest_error rt (strings_ToUpper rt (ep_Method endpoint)) (ep_Url endpoint) = None
    \<Longrightarrow> strings_ToUpper rt (ep_Method endpoint) = ''POST''
    \<Longrightarrow> json_Marshal rt m = Inr body
    \<Longrightarrow> sendSingle rt name peripheral subscriber w =
         call_transport rt
           (set_endpoint_headers rt endpoint
              \<lparr>req_Method = ''POST'', req_Url = ep_Url endpoint, req_RawQuery = None,
               req_Header = [(CanonicalHeaderKey rt ''Content-Type'', ''application/json'')],
               req_Body = Some body\<rparr>)
           w"
  by (simp add: sendSingle_def http_NewRequest_def Header_Set_def)

lemma sendSingle_query:
  "serializePeripheral name peripheral = Inr m \<Longrightarrow> sub_Endpoint subscriber = Some endpoint
    \<Longrightarrow> ep_Url endpoint \<noteq> []
    \<Longrightarrow> NewRequest_error rt (strings_ToUpper rt (ep_Method endpoint)) (ep_Url endpoint) = None
    \<Longrightarrow> strings_ToUpper rt (ep_Method endpoint) \<noteq> ''POST''
    \<Longrightarrow> range_visits_each_once rt
    \<Longrightarrow> sendSingle rt name peripheral subscriber w =
         call_transport rt
           (set_endpoint_headers rt endpoint
              \<lparr>req_Method = (if strings_ToUpper rt (ep_Method endpoint) = [] then ''GET''
                             else strings_ToUpper rt (ep_Method endpoint)),
               req_Url = ep_Url endpoint,
               req_RawQuery = Some (join_amp (map (\<lambda>(k, v). url_QueryEscape rt k @ ''='' @ v)
                                               (range_map rt m))),
               req_Header = [], req_Body = None\<rparr>)
           w"
proof -
  assume a: "serializePeripheral name peripheral = Inr m" "sub_Endpoint subscriber = Some endpoint"
    "ep_Url endpoint \<noteq> []"
    "NewRequest_error rt (strings_ToUpper rt (ep_Method endpoint)) (ep_Url endpoint) = None"
    "strings_ToUpper rt (ep_Method endpoint) \<noteq> ''POST''"
    and r: "range_visits_each_once rt"
  from a(1) have "m \<noteq> []" using serializePeripheral_Inr_keys by blast
  with r have "range_map rt m \<noteq> []" by (simp add: range_map_empty_iff)
  then have "encode rt m =
       Inr (join_amp (map (\<lambda>(k, v). url_QueryEscape rt k @ ''='' @ v) (range_map rt m)))"
    by (rule encode_nonempty)
  with a show ?thesis by (simp add: sendSingle_def http_NewRequest_def)
qed

lemma call_transport_result:
  "fst (call_transport rt req w) = Inr (case fst (transport_Do rt req (outside w)) of
                                          None \<Rightarrow> None | Some e \<Rightarrow> Some (ErrTransport e))"
  by (simp add: call_transport_def split: prod.splits option.splits)

lemma call_transport_world:
  "outside (snd (call_transport rt req w)) = snd (transport_Do rt req (outside w))
   \<and> sent_requests (trace (snd (call_transport rt req w))) = sent_requests (trace w) @ [req]
   \<and> listener_calls (trace (snd (call_transport rt req w))) = listener_calls (trace w)
   \<and> (\<exists>t. trace (snd (call_transport rt req w)) = trace w @ t \<and> listener_calls t = [])"
  by (simp add: call_transport_def logged_def sent_requests_append listener_calls_append
      split: prod.splits option.splits)

lemma logged_world:
  "outside (logged lvl line w) = outside w
   \<and> sent_requests (trace (logged lvl line w)) = sent_requests (trace w)
   \<and> listener_calls (trace (logged lvl line w)) = listener_calls (trace w)
   \<and> trace (logged lvl line w) = trace w @ [Logged lvl line]"
  by (simp add: logged_def sent_requests_append listener_calls_append)


lemma sendSingle_cases:
  assumes r: "range_visits_each_once rt"
  obtains
    (failed) e w1 where "sendSingle rt name peripheral subscriber w = (Inr (Some e), w1)"
      "w1 = w \<or> (\<exists>lvl line. w1 = logged lvl line w)"
      "(\<exists>err. serializePeripheral name peripheral = Inl err) \<or> sub_Endpoint subscriber \<noteq> None"
  | (skipped) m where "serializePeripheral name peripheral = Inr m"
      "sub_Endpoint subscriber = None"
      "sendSingle rt name peripheral subscriber w
         = (Inr None, logged LogWarn (Text ''subscriber has no endpoints'') w)"
  | (sent) m endpoint req where "serializePeripheral name peripheral = Inr m"
      "sub_Endpoint subscriber = Some endpoint" "ep_Url endpoint \<noteq> []"
      "sendSingle rt name peripheral subscriber w = call_transport rt req w"
proof (cases "serializePeripheral name peripheral")
  case (Inl err)
  then show ?thesis
    using failed sendSingle_serialization_error [of name peripheral err rt subscriber w]
    by blast
next
  case (Inr m)
  show ?thesis
  proof (cases "sub_Endpoint subscriber")
    case None
    with Inr show ?thesis using skipped sendSingle_no_endpoint by blast
  next
    case (Some endpoint)
    show ?thesis
    proof (cases "ep_Url endpoint = []")
      case True
      with Inr Some show ?thesis
        using failed sendSingle_empty_url [of name peripheral m subscriber endpoint rt w]
        by blast
    next
      case url: False
      show ?thesis
      proof (cases "NewRequest_error rt (strings_ToUpper rt (ep_Method endpoint)) (ep_Url endpoint)")
        case (Some e)
        with Inr \<open>sub_Endpoint subscriber = Some endpoint\<close> url show ?thesis
          using failed sendSingle_request_error [of name peripheral m subscriber endpoint rt e w]
          by blast
      next
        case None
        note ok = Inr \<open>sub_Endpoint subscriber = Some endpoint\<close> url None
        show ?thesis
        proof (cases "strings_ToUpper rt (ep_Method endpoint) = ''POST''")
          case False
          from sendSingle_query [OF ok False r] ok show ?thesis using sent by blast
        next
          case True
          show ?thesis
          proof (cases "json_Marshal rt m")
            case (Inl e)
            from sendSingle_marshal_error [OF ok True Inl] ok show ?thesis
              using failed [of "ErrMarshal e" w] by blast
          next
            case (Inr body)
            from sendSingle_post [OF ok True Inr] ok show ?thesis using sent by blast
          qed
        qed
      qed
    qed
  qed
qed

lemma sendSingle_shape:
  assumes r: "range_visits_each_once rt"
  shows "\<exists>err w1 t. sendSingle rt name peripheral subscriber w = (Inr err, w1)
           \<and> trace w1 = trace w @ t \<and> listener_calls t = []"
  using r
proof (cases rule: sendSingle_cases [of rt name peripheral subscriber w])
  case (failed e w1)
  from failed(2) have "\<exists>t. trace w1 = trace w @ t \<and> listener_calls t = []"
    by (auto simp add: logged_def)
  with failed(1) show ?thesis by blast
next
  case (skipped m)
  have "trace (logged LogWarn (Text ''subscriber has no endpoints'') w)
          = trace w @ [Logged LogWarn (Text ''subscriber has no endpoints'')]"
    by (simp add: logged_def)
  with skipped(3) show ?thesis by fastforce
next
  case (sent m endpoint req)
  obtain t where "trace (snd (call_transport rt req w)) = trace w @ t" "listener_calls t = []"
    using call_transport_world by blast
  moreover have "call_transport rt req w
      = (Inr (case fst (transport_Do rt req (outside w)) of
                None \<Rightarrow> None | Some e \<Rightarrow> Some (ErrTransport e)), snd (call_transport rt req w))"
    using call_transport_result [of rt req w] by (metis prod.collapse)
  ultimately show ?thesis using sent(4) by metis
qed

lemma sendBatch_loop_step:
  assumes "sendSingle rt (msg_TargetName msg) (msg_Peripheral msg) subscriber w = (Inr err, w1)"
  shows "sendBatch_loop rt msg (subscriber # rest) events w =
     sendBatch_loop rt msg rest
       (events @ [\<lparr>ev_Name = msg_EventName msg, ev_Timestamp = fst (time_Now rt (outside w1)),
                    ev_TargetName = msg_TargetName msg, ev_Subscriber = subscriber,
                    ev_Delivered = (err = None), ev_Error = err\<rparr>])
       (logged LogInfo
          (Text (if err = None then ''Succeeded to notify a subscriber for peripheral''
                 else failed_to_notify))
          (w1\<lparr>outside := snd (time_Now rt (outside w1))\<rparr>))"
  using assms by (simp add: Let_def split: prod.splits)

lemma sendBatch_loop_run:
  assumes r: "range_visits_each_once rt"
  shows "\<exists>evs w1 t. sendBatch_loop rt msg subs events w = (Inr (events @ evs), w1)
           \<and> map ev_Subscriber evs = subs
           \<and> trace w1 = trace w @ t \<and> listener_calls t = []"
proof (induction subs arbitrary: events w)
  case Nil
  show ?case by simp
next
  case (Cons subscriber rest)
  obtain err w1 t where s: "sendSingle rt (msg_TargetName msg) (msg_Peripheral msg) subscriber w
      = (Inr err, w1)" and t: "trace w1 = trace w @ t" "listener_calls t = []"
    using sendSingle_shape [OF r] by blast
  define evt where "evt = \<lparr>ev_Name = msg_EventName msg,
      ev_Timestamp = fst (time_Now rt (outside w1)),
      ev_TargetName = msg_TargetName msg, ev_Subscriber = subscriber,
      ev_Delivered = (err = None), ev_Error = err\<rparr>"
  define line where "line = Text (if err = None
      then ''Succeeded to notify a subscriber for peripheral''
      else failed_to_notify)"
  define w2 where "w2 = logged LogInfo line (w1\<lparr>outside := snd (time_Now rt (outside w1))\<rparr>)"
  have step: "sendBatch_loop rt msg (subscriber # rest) events w
      = sendBatch_loop rt msg rest (events @ [evt]) w2"
    unfolding evt_def w2_def line_def using s by (rule sendBatch_loop_step)
  obtain evs w3 t' where run: "sendBatch_loop rt msg rest (events @ [evt]) w2
      = (Inr ((events @ [evt]) @ evs), w3)" "map ev_Subscriber evs = rest"
      "trace w3 = trace w2 @ t'" "listener_calls t' = []"
    using Cons.IH by blast
  have w2t: "trace w2 = trace w @ t @ [Logged LogInfo line]"
    by (simp add: w2_def logged_def t)
  have "sendBatch_loop rt msg (subscriber # rest) events w = (Inr (events @ evt # evs), w3)"
    using step run(1) by simp
  moreover have "map ev_Subscriber (evt # evs) = subscriber # rest"
    using run(2) by (simp add: evt_def)
  moreover have "trace w3 = trace w @ (t @ [Logged LogInfo line] @ t')"
    using run(3) w2t by simp
  moreover have "listener_calls (t @ [Logged LogInfo line] @ t') = []"
    using t(2) run(4) by (simp add: listener_calls_append)
  ultimately show ?case
    by (intro exI [of _ "evt # evs"] exI [of _ w3] exI [of _ "t @ [Logged LogInfo line] @ t'"])
      simp
qed

lemma emit_one_listener:
  "fold (\<lambda>evt w'. w'\<lparr>trace := trace w' @ [ListenerCall l evt]\<rparr>) evs w
     = w\<lparr>trace := trace w @ map (ListenerCall l) evs\<rparr>"
  by (induction evs arbitrary: w) simp_all

lemma emit_listeners:
  "fold (\<lambda>listener. fold (\<lambda>evt w'. w'\<lparr>trace := trace w' @ [ListenerCall listener evt]\<rparr>) evs) ls w
     = w\<lparr>trace := trace w @ concat (map (\<lambda>l. map (ListenerCall l) evs) ls)\<rparr>"
  by (induction ls arbitrary: w) (simp_all add: emit_one_listener)

lemma emit_trace:
  "emit sender evs w
     = w\<lparr>trace := trace w @ concat (map (\<lambda>l. map (ListenerCall l) evs) (listeners sender))\<rparr>"
  by (cases "evs = []") (simp_all add: emit_def emit_listeners)

lemma listener_calls_emitted:
  "listener_calls (concat (map (\<lambda>l. map (ListenerCall l) evs) ls))
     = concat (map (\<lambda>l. map (Pair l) evs) ls)"
proof -
  have one: "listener_calls (map (ListenerCall l) evs) = map (Pair l) evs" for l
    by (induction evs) simp_all
  show ?thesis by (induction ls) (simp_all add: listener_calls_append one)
qed


subsection \<open>A batch and its listeners\<close>

text \<open>
  C4. Provided \<open>range\<close> visits every entry of a map once, for a message whose event name
  is "found" or "lost": the batch loop returns one event per subscriber of the message,
  the events being in the order of the subscriber list; what the loop adds to the trace
  contains no listener call; and \<open>Send\<close> returns no error and leaves the trace made of the
  trace before, the effects of the deliveries, and then the listener calls, which are:
  for every listener in the order of the registry, every event of the batch in the order
  of the batch. \<open>AddEventListener\<close> puts a listener at the end of the registry, so the
  order of the registry is the order of registration.
\<close>

theorem batch_outcomes_then_listeners:
  assumes "range_visits_each_once rt" and "msg_EventName msg \<in> {''found'', ''lost''}"
  shows "\<exists>evs w1 delivery.
           sendBatch_loop rt msg (msg_Subscribers msg) [] w = (Inr evs, w1)
           \<and> length evs = length (msg_Subscribers msg)
           \<and> map ev_Subscriber evs = msg_Subscribers msg
           \<and> trace w1 = trace w @ delivery \<and> listener_calls delivery = []
           \<and> Send rt sender msg w =
               (None, w1\<lparr>trace := trace w @ delivery
                          @ concat (map (\<lambda>l. map (ListenerCall l) evs) (listeners sender))\<rparr>)
           \<and> listener_calls (trace (snd (Send rt sender msg w))) =
               listener_calls (trace w)
                 @ concat (map (\<lambda>l. map (Pair l) evs) (listeners sender))
           \<and> listeners (AddEventListener (Some l) sender) = listeners sender @ [l]"
proof -
  have add: "listeners (AddEventListener (Some l) sender) = listeners sender @ [l]"
    by (simp add: AddEventListener_def)
  obtain evs w1 delivery where run:
    "sendBatch_loop rt msg (msg_Subscribers msg) [] w = (Inr ([] @ evs), w1)"
    "map ev_Subscriber evs = msg_Subscribers msg"
    "trace w1 = trace w @ delivery" "listener_calls delivery = []"
    using sendBatch_loop_run [OF assms(1)] by blast
  from run(2) have len: "length evs = length (msg_Subscribers msg)"
    by (metis length_map)
  have supported: "isSupportedEventName (msg_EventName msg)"
    using assms(2) by (simp add: isSupportedEventName_iff)
  have send: "Send rt sender msg w =
      (None, w1\<lparr>trace := trace w @ delivery
                 @ concat (map (\<lambda>l. map (ListenerCall l) evs) (listeners sender))\<rparr>)"
    using run(1,3) supported by (simp add: Send_def sendBatch_def emit_trace)
  have calls: "listener_calls (trace (snd (Send rt sender msg w))) =
      listener_calls (trace w) @ concat (map (\<lambda>l. map (Pair l) evs) (listeners sender))"
    using run(4) by (simp add: send listener_calls_append listener_calls_emitted)
  from run len send calls add show ?thesis
    by (intro exI [of _ evs] exI [of _ w1] exI [of _ delivery]) simp
qed


subsection \<open>The outcome of a delivery\<close>

lemma outcome_without_transport:
  assumes s: "sendSingle rt (msg_TargetName msg) (msg_Peripheral msg) subscriber w
                = (Inr err, logged lvl line w)"
  shows "\<exists>w1 evt w2.
           sendSingle rt (msg_TargetName msg) (msg_Peripheral msg) subscriber w = (Inr err, w1)
           \<and> outside w1 = outside w
           \<and> sent_requests (trace w1) = sent_requests (trace w)
           \<and> sendBatch_loop rt msg (subscriber # rest) events w
               = sendBatch_loop rt msg rest (events @ [evt]) w2
           \<and> ev_Subscriber evt = subscriber \<and> ev_Delivered evt = (err = None)
           \<and> ev_Error evt = err
           \<and> sent_requests (trace w2) = sent_requests (trace w)"
proof -
  define w1 where "w1 = logged lvl line w"
  have w1: "outside w1 = outside w" "sent_requests (trace w1) = sent_requests (trace w)"
    by (simp_all add: w1_def logged_def sent_requests_append)
  have s1: "sendSingle rt (msg_TargetName msg) (msg_Peripheral msg) subscriber w = (Inr err, w1)"
    using s by (simp add: w1_def)
  from sendBatch_loop_step [OF s1, of rest events] w1 s1
  show ?thesis
    by (intro exI [of _ w1]
          exI [of _ "\<lparr>ev_Name = msg_EventName msg, ev_Timestamp = fst (time_Now rt (outside w1)),
                    ev_TargetName = msg_TargetName msg, ev_Subscriber = subscriber,
                    ev_Delivered = (err = None), ev_Error = err\<rparr>"]
          exI [of _ "logged LogInfo
                       (Text (if err = None
                              then ''Succeeded to notify a subscriber for peripheral''
                              else failed_to_notify))
                       (w1\<lparr>outside := snd (time_Now rt (outside w1))\<rparr>)"])
       (simp add: logged_def sent_requests_append)
qed

text \<open>
  C6, as the code has it. For every subscriber the batch loop reaches, in whatever world:
  when the peripheral of the message serializes and the subscriber has a nil endpoint,
  \<open>sendSingle\<close> returns no error, leaves the outside world as it was and gives no request
  to the transport, and the event the loop builds for the subscriber has delivered true and
  no error; when the peripheral serializes and the subscriber's endpoint has an empty URL,
  \<open>sendSingle\<close> returns the empty-URL error, again without touching the outside world or
  the transport, and the event has delivered false and that error; and when the peripheral
  does not serialize, \<open>sendSingle\<close> returns the error of the serialization whatever the
  subscriber's endpoint is, without touching the outside world or the transport, and the
  event has delivered false and that error.
\<close>

theorem nil_endpoint_and_empty_url:
  "(\<forall>m. serializePeripheral (msg_TargetName msg) (msg_Peripheral msg) = Inr m
          \<and> sub_Endpoint subscriber = None \<longrightarrow>
        (\<exists>w1 evt w2.
           sendSingle rt (msg_TargetName msg) (msg_Peripheral msg) subscriber w = (Inr None, w1)
           \<and> outside w1 = outside w
           \<and> sent_requests (trace w1) = sent_requests (trace w)
           \<and> sendBatch_loop rt msg (subscriber # rest) events w
               = sendBatch_loop rt msg rest (events @ [evt]) w2
           \<and> ev_Subscriber evt = subscriber \<and> ev_Delivered evt \<and> ev_Error evt = None
           \<and> sent_requests (trace w2) = sent_requests (trace w)))
   \<and> (\<forall>m endpoint. serializePeripheral (msg_TargetName msg) (msg_Peripheral msg) = Inr m
          \<and> sub_Endpoint subscriber = Some endpoint \<and> ep_Url endpoint = [] \<longrightarrow>
        (\<exists>w1 evt w2.
           sendSingle rt (msg_TargetName msg) (msg_Peripheral msg) subscriber w
             = (Inr (Some ErrEmptyUrl), w1)
           \<and> outside w1 = outside w
           \<and> sent_requests (trace w1) = sent_requests (trace w)
           \<and> sendBatch_loop rt msg (subscriber # rest) events w
               = sendBatch_loop rt msg rest (events @ [evt]) w2
           \<and> ev_Subscriber evt = subscriber \<and> \<not> ev_Delivered evt
           \<and> ev_Error evt = Some ErrEmptyUrl
           \<and> sent_requests (trace w2) = sent_requests (trace w)))
   \<and> (\<forall>err. serializePeripheral (msg_TargetName msg) (msg_Peripheral msg) = Inl err \<longrightarrow>
        (\<exists>w1 evt w2.
           sendSingle rt (msg_TargetName msg) (msg_Peripheral msg) subscriber w
             = (Inr (Some err), w1)
           \<and> outside w1 = outside w
           \<and> sent_requests (trace w1) = sent_requests (trace w)
           \<and> sendBatch_loop rt msg (subscriber # rest) events w
               = sendBatch_loop rt msg rest (events @ [evt]) w2
           \<and> ev_Subscriber evt = subscriber \<and> \<not> ev_Delivered evt
           \<and> ev_Error evt = Some err
           \<and> sent_requests (trace w2) = sent_requests (trace w)))"
proof (intro conjI allI impI)
  fix m
  assume "serializePeripheral (msg_TargetName msg) (msg_Peripheral msg) = Inr m
          \<and> sub_Endpoint subscriber = None"
  then have "sendSingle rt (msg_TargetName msg) (msg_Peripheral msg) subscriber w
      = (Inr None, logged LogWarn (Text ''subscriber has no endpoints'') w)"
    by (simp add: sendSingle_no_endpoint)
  from outcome_without_transport [OF this, of rest events]
  show "\<exists>w1 evt w2.
           sendSingle rt (msg_TargetName msg) (msg_Peripheral msg) subscriber w = (Inr None, w1)
           \<and> outside w1 = outside w
           \<and> sent_requests (trace w1) = sent_requests (trace w)
           \<and> sendBatch_loop rt msg (subscriber # rest) events w
               = sendBatch_loop rt msg rest (events @ [evt]) w2
           \<and> ev_Subscriber evt = subscriber \<and> ev_Delivered evt \<and> ev_Error evt = None
           \<and> sent_requests (trace w2) = sent_requests (trace w)"
    by simp
next
  fix m endpoint
  assume "serializePeripheral (msg_TargetName msg) (msg_Peripheral msg) = Inr m
          \<and> sub_Endpoint subscriber = Some endpoint \<and> ep_Url endpoint = []"
  then have "sendSingle rt (msg_TargetName msg) (msg_Peripheral msg) subscriber w
      = (Inr (Some ErrEmptyUrl), logged LogError (Text ''endpoint has an empty url: %s'') w)"
    by (simp add: sendSingle_empty_url)
  from outcome_without_transport [OF this, of rest events]
  show "\<exists>w1 evt w2.
           sendSingle rt (msg_TargetName msg) (msg_Peripheral msg) subscriber w
             = (Inr (Some ErrEmptyUrl), w1)
           \<and> outside w1 = outside w
           \<and> sent_requests (trace w1) = sent_requests (trace w)
           \<and> sendBatch_loop rt msg (subscriber # rest) events w
               = sendBatch_loop rt msg rest (events @ [evt]) w2
           \<and> ev_Subscriber evt = subscriber \<and> \<not> ev_Delivered evt
           \<and> ev_Error evt = Some ErrEmptyUrl
           \<and> sent_requests (trace w2) = sent_requests (trace w)"
    by simp
next
  fix err
  assume "serializePeripheral (msg_TargetName msg) (msg_Peripheral msg) = Inl err"
  then have "sendSingle rt (msg_TargetName msg) (msg_Peripheral msg) subscriber w
      = (Inr (Some err), logged LogError (ErrorText err) w)"
    by (rule sendSingle_serialization_error)
  from outcome_without_transport [OF this, of rest events]
  show "\<exists>w1 evt w2.
           sendSingle rt (msg_TargetName msg) (msg_Peripheral msg) subscriber w
             = (Inr (Some err), w1)
           \<and> outside w1 = outside w
           \<and> sent_requests (trace w1) = sent_requests (trace w)
           \<and> sendBatch_loop rt msg (subscriber # rest) events w
               = sendBatch_loop rt msg rest (events @ [evt]) w2
           \<and> ev_Subscriber evt = subscriber \<and> \<not> ev_Delivered evt
           \<and> ev_Error evt = Some err
           \<and> sent_requests (trace w2) = sent_requests (trace w)"
    by simp
qed

text \<open>
  C2, as the code has it. Provided \<open>range\<close> visits every entry of a map once, for every
  subscriber the batch loop reaches, in whatever world and with whatever events before it:
  \<open>sendSingle\<close> returns, the loop goes on with one more event, the event is for that
  subscriber and carries the error \<open>sendSingle\<close> returned, and its delivered flag is true
  exactly when that error is nil, which is exactly when the peripheral serialized and either
  the subscriber has no endpoint, or it has an endpoint with a non-empty URL, a request was
  given to \<open>Transport.Do\<close> and \<open>Transport.Do\<close> returned no error for it. A subscriber
  without endpoint never reaches the transport.
\<close>

theorem delivered_iff:
  assumes r: "range_visits_each_once rt"
  shows "\<exists>evt w1 w2.
      sendSingle rt (msg_TargetName msg) (msg_Peripheral msg) subscriber w
        = (Inr (ev_Error evt), w1)
      \<and> sendBatch_loop rt msg (subscriber # rest) events w
          = sendBatch_loop rt msg rest (events @ [evt]) w2
      \<and> ev_Subscriber evt = subscriber
      \<and> (ev_Delivered evt \<longleftrightarrow> ev_Error evt = None)
      \<and> (ev_Delivered evt \<longleftrightarrow>
           (\<exists>m. serializePeripheral (msg_TargetName msg) (msg_Peripheral msg) = Inr m)
           \<and> (sub_Endpoint subscriber = None
              \<or> (\<exists>endpoint req. sub_Endpoint subscriber = Some endpoint \<and> ep_Url endpoint \<noteq> []
                   \<and> sent_requests (trace w1) = sent_requests (trace w) @ [req]
                   \<and> fst (transport_Do rt req (outside w)) = None)))
      \<and> (sub_Endpoint subscriber = None \<longrightarrow> sent_requests (trace w1) = sent_requests (trace w))"
proof -
  obtain err w1 where s: "sendSingle rt (msg_TargetName msg) (msg_Peripheral msg) subscriber w
      = (Inr err, w1)"
    using sendSingle_shape [OF r] by blast
  define evt where "evt = \<lparr>ev_Name = msg_EventName msg,
      ev_Timestamp = fst (time_Now rt (outside w1)),
      ev_TargetName = msg_TargetName msg, ev_Subscriber = subscriber,
      ev_Delivered = (err = None), ev_Error = err\<rparr>"
  define w2 where "w2 = logged LogInfo
          (Text (if err = None then ''Succeeded to notify a subscriber for peripheral''
                 else failed_to_notify))
          (w1\<lparr>outside := snd (time_Now rt (outside w1))\<rparr>)"
  have step: "sendBatch_loop rt msg (subscriber # rest) events w
      = sendBatch_loop rt msg rest (events @ [evt]) w2"
    unfolding evt_def w2_def using s by (rule sendBatch_loop_step)
  have "(err = None \<longleftrightarrow>
           (\<exists>m. serializePeripheral (msg_TargetName msg) (msg_Peripheral msg) = Inr m)
           \<and> (sub_Endpoint subscriber = None
              \<or> (\<exists>endpoint req. sub_Endpoint subscriber = Some endpoint \<and> ep_Url endpoint \<noteq> []
                   \<and> sent_requests (trace w1) = sent_requests (trace w) @ [req]
                   \<and> fst (transport_Do rt req (outside w)) = None)))
      \<and> (sub_Endpoint subscriber = None \<longrightarrow> sent_requests (trace w1) = sent_requests (trace w))"
    using r
  proof (cases rule: sendSingle_cases
      [of rt "msg_TargetName msg" "msg_Peripheral msg" subscriber w])
    case (failed e w1')
    with s have err: "err = Some e" and w1: "w1 = w1'" by simp_all
    from failed(2) w1 have same: "sent_requests (trace w1) = sent_requests (trace w)"
      by (auto simp add: logged_def sent_requests_append)
    from failed(3) same err show ?thesis by auto
  next
    case (skipped m)
    with s have err: "err = None"
      and w1: "w1 = logged LogWarn (Text ''subscriber has no endpoints'') w" by simp_all
    from w1 have "sent_requests (trace w1) = sent_requests (trace w)"
      by (simp add: logged_def sent_requests_append)
    with skipped(1,2) err show ?thesis by simp
  next
    case (sent m endpoint req)
    with s have c: "call_transport rt req w = (Inr err, w1)" by simp
    have e: "err = (case fst (transport_Do rt req (outside w)) of
                     None \<Rightarrow> None | Some e \<Rightarrow> Some (ErrTransport e))"
      using call_transport_result [of rt req w] c by simp
    have q: "sent_requests (trace w1) = sent_requests (trace w) @ [req]"
      using call_transport_world [of rt req w] c by simp
    from e have "err = None \<longleftrightarrow> fst (transport_Do rt req (outside w)) = None"
      by (simp split: option.splits)
    with sent(1,2,3) q show ?thesis by auto
  qed
  with s step show ?thesis
    by (intro exI [of _ evt] exI [of _ w1] exI [of _ w2]) (simp add: evt_def)
qed

subsection \<open>The outbound request\<close>

lemma fold_Header_Set:
  "fold (\<lambda>(key, v). Header_Set rt key v) hs req
     = req\<lparr>req_Header :=
             fold (\<lambda>(key, v). AList.update (CanonicalHeaderKey rt key) v) hs (req_Header req)\<rparr>"
  by (induction hs arbitrary: req) (auto simp add: Header_Set_def)

lemma fold_update_lookup:
  assumes "\<forall>(k, v')\<in>set hs. canon k = c \<longrightarrow> v' = v"
  shows "map_of (fold (\<lambda>(key, v). AList.update (canon key) v) hs h) c
           = (if c \<in> canon ` fst ` set hs then Some v else map_of h c)"
  using assms
proof (induction hs arbitrary: h)
  case Nil
  show ?case by simp
next
  case (Cons kv hs)
  obtain k0 v0 where kv: "kv = (k0, v0)" by (cases kv)
  from Cons.prems have rest: "\<forall>(k, v')\<in>set hs. canon k = c \<longrightarrow> v' = v"
    and first: "canon k0 = c \<longrightarrow> v0 = v" by (auto simp add: kv)
  from Cons.IH [OF rest, of "AList.update (canon k0) v0 h"] first
  show ?case by (auto simp add: kv update_conv')
qed

lemma set_endpoint_headers_eq:
  assumes "range_visits_each_once rt"
  shows "set_endpoint_headers rt endpoint req
     = req\<lparr>req_Header :=
             fold (\<lambda>(key, v). AList.update (CanonicalHeaderKey rt key) v)
               (range_map rt (ep_Headers endpoint)) (req_Header req)\<rparr>"
proof (cases "ep_Headers endpoint = []")
  case True
  with assms have "range_map rt (ep_Headers endpoint) = []" by (simp add: range_map_empty_iff)
  with True show ?thesis by (simp add: set_endpoint_headers_def)
next
  case False
  then show ?thesis by (simp add: set_endpoint_headers_def fold_Header_Set)
qed

text \<open>
  C8, as the code has it. Provided \<open>range\<close> visits every entry of a map once, the
  peripheral serializes to the mapping \<open>m\<close>, the subscriber has an endpoint with a
  non-empty URL and \<open>http.NewRequest\<close> accepts the upper-cased method and the URL. When
  the upper-cased method is POST and \<open>json.Marshal\<close> of \<open>m\<close> gives \<open>body\<close>, one request
  is given to the transport, with method POST, the endpoint's URL, \<open>body\<close> as its body and
  the URL's own query; its Content-Type is application/json when no header of the endpoint
  has that canonical name, and is the endpoint's value when the endpoint's headers of that
  name all carry that value. When the upper-cased method is anything else, one request is
  given to the transport, with that method, or with GET when that method is the empty
  string, the endpoint's URL, no body, and as query the
  entries of \<open>m\<close>, each once, in some order, each written as the escaped key, \<open>=\<close> and
  the value as it is, joined by \<open>&\<close> with none at the end.
\<close>

theorem request_encoding:
  assumes r: "range_visits_each_once rt"
    and m: "serializePeripheral name peripheral = Inr m"
    and ep: "sub_Endpoint subscriber = Some endpoint"
    and url: "ep_Url endpoint \<noteq> []"
    and new: "NewRequest_error rt (strings_ToUpper rt (ep_Method endpoint)) (ep_Url endpoint) = None"
  shows "(strings_ToUpper rt (ep_Method endpoint) = ''POST'' \<longrightarrow>
           (\<forall>body. json_Marshal rt m = Inr body \<longrightarrow>
             (\<exists>req. sent_requests (trace (snd (sendSingle rt name peripheral subscriber w)))
                      = sent_requests (trace w) @ [req]
                \<and> req_Method req = ''POST'' \<and> req_Url req = ep_Url endpoint
                \<and> req_Body req = Some body \<and> req_RawQuery req = None
                \<and> (CanonicalHeaderKey rt ''Content-Type''
                      \<notin> CanonicalHeaderKey rt ` fst ` set (ep_Headers endpoint) \<longrightarrow>
                    map_of (req_Header req) (CanonicalHeaderKey rt ''Content-Type'')
                      = Some ''application/json'')
                \<and> (\<forall>v. CanonicalHeaderKey rt ''Content-Type''
                          \<in> CanonicalHeaderKey rt ` fst ` set (ep_Headers endpoint)
                        \<and> (\<forall>(k, v')\<in>set (ep_Headers endpoint).
                              CanonicalHeaderKey rt k = CanonicalHeaderKey rt ''Content-Type''
                              \<longrightarrow> v' = v) \<longrightarrow>
                    map_of (req_Header req) (CanonicalHeaderKey rt ''Content-Type'') = Some v))))
       \<and> (strings_ToUpper rt (ep_Method endpoint) \<noteq> ''POST'' \<longrightarrow>
           (\<exists>req entries.
                sent_requests (trace (snd (sendSingle rt name peripheral subscriber w)))
                  = sent_requests (trace w) @ [req]
              \<and> req_Method req = (if strings_ToUpper rt (ep_Method endpoint) = [] then ''GET''
                                  else strings_ToUpper rt (ep_Method endpoint))
              \<and> req_Url req = ep_Url endpoint \<and> req_Body req = None
              \<and> mset entries = mset m
              \<and> req_RawQuery req
                  = Some (join_amp (map (\<lambda>(k, v). url_QueryEscape rt k @ ''='' @ v) entries))))"
proof (intro conjI impI allI)
  fix body
  assume post: "strings_ToUpper rt (ep_Method endpoint) = ''POST''"
    and body: "json_Marshal rt m = Inr body"
  define c where "c = CanonicalHeaderKey rt ''Content-Type''"
  define hs where "hs = range_map rt (ep_Headers endpoint)"
  define req0 where "req0 = \<lparr>req_Method = ''POST'', req_Url = ep_Url endpoint,
      req_RawQuery = None, req_Header = [(c, ''application/json'')], req_Body = Some body\<rparr>"
  define req where "req = set_endpoint_headers rt endpoint req0"
  have hs_set: "set hs = set (ep_Headers endpoint)"
    unfolding hs_def using r by (rule range_map_set)
  have s: "sendSingle rt name peripheral subscriber w = call_transport rt req w"
    unfolding req_def req0_def c_def by (rule sendSingle_post [OF m ep url new post body])
  have req: "req = req0\<lparr>req_Header :=
      fold (\<lambda>(key, v). AList.update (CanonicalHeaderKey rt key) v) hs (req_Header req0)\<rparr>"
    unfolding req_def hs_def using r by (rule set_endpoint_headers_eq)
  have sent: "sent_requests (trace (snd (sendSingle rt name peripheral subscriber w)))
      = sent_requests (trace w) @ [req]"
    by (simp add: s call_transport_world)
  have fields: "req_Method req = ''POST''" "req_Url req = ep_Url endpoint"
    "req_Body req = Some body" "req_RawQuery req = None"
    by (simp_all add: req req0_def)
  have default: "map_of (req_Header req) c = Some ''application/json''"
    if "c \<notin> CanonicalHeaderKey rt ` fst ` set (ep_Headers endpoint)"
  proof -
    have "\<forall>(k, v')\<in>set hs. CanonicalHeaderKey rt k = c \<longrightarrow> v' = ''application/json''"
      using that hs_set by force
    from fold_update_lookup [OF this, of "req_Header req0"] that hs_set
    show ?thesis by (simp add: req req0_def)
  qed
  have override: "map_of (req_Header req) c = Some v"
    if "c \<in> CanonicalHeaderKey rt ` fst ` set (ep_Headers endpoint)
        \<and> (\<forall>(k, v')\<in>set (ep_Headers endpoint). CanonicalHeaderKey rt k = c \<longrightarrow> v' = v)" for v
  proof -
    have "\<forall>(k, v')\<in>set hs. CanonicalHeaderKey rt k = c \<longrightarrow> v' = v"
      using that hs_set by simp
    from fold_update_lookup [OF this, of "req_Header req0"] that hs_set
    show ?thesis by (simp add: req)
  qed
  from sent fields default override
  show "\<exists>req. sent_requests (trace (snd (sendSingle rt name peripheral subscriber w)))
                      = sent_requests (trace w) @ [req]
                \<and> req_Method req = ''POST'' \<and> req_Url req = ep_Url endpoint
                \<and> req_Body req = Some body \<and> req_RawQuery req = None
                \<and> (CanonicalHeaderKey rt ''Content-Type''
                      \<notin> CanonicalHeaderKey rt ` fst ` set (ep_Headers endpoint) \<longrightarrow>
                    map_of (req_Header req) (CanonicalHeaderKey rt ''Content-Type'')
                      = Some ''application/json'')
                \<and> (\<forall>v. CanonicalHeaderKey rt ''Content-Type''
                          \<in> CanonicalHeaderKey rt ` fst ` set (ep_Headers endpoint)
                        \<and> (\<forall>(k, v')\<in>set (ep_Headers endpoint).
                              CanonicalHeaderKey rt k = CanonicalHeaderKey rt ''Content-Type''
                              \<longrightarrow> v' = v) \<longrightarrow>
                    map_of (req_Header req) (CanonicalHeaderKey rt ''Content-Type'') = Some v)"
    unfolding c_def [symmetric] by (intro exI [of _ req]) blast
next
  assume other: "strings_ToUpper rt (ep_Method endpoint) \<noteq> ''POST''"
  define req0 where "req0 = \<lparr>req_Method = (if strings_ToUpper rt (ep_Method endpoint) = []
        then ''GET'' else strings_ToUpper rt (ep_Method endpoint)),
      req_Url = ep_Url endpoint,
      req_RawQuery = Some (join_amp (map (\<lambda>(k, v). url_QueryEscape rt k @ ''='' @ v)
                                       (range_map rt m))),
      req_Header = [], req_Body = None\<rparr>"
  define req where "req = set_endpoint_headers rt endpoint req0"
  have s: "sendSingle rt name peripheral subscriber w = call_transport rt req w"
    unfolding req_def req0_def by (rule sendSingle_query [OF m ep url new other r])
  have req: "req = req0\<lparr>req_Header :=
      fold (\<lambda>(key, v). AList.update (CanonicalHeaderKey rt key) v)
        (range_map rt (ep_Headers endpoint)) (req_Header req0)\<rparr>"
    unfolding req_def using r by (rule set_endpoint_headers_eq)
  have sent: "sent_requests (trace (snd (sendSingle rt name peripheral subscriber w)))
      = sent_requests (trace w) @ [req]"
    by (simp add: s call_transport_world)
  have perm: "mset (range_map rt m) = mset m"
    using r by (simp add: range_visits_each_once_def)
  from sent perm
  show "\<exists>req entries.
                sent_requests (trace (snd (sendSingle rt name peripheral subscriber w)))
                  = sent_requests (trace w) @ [req]
              \<and> req_Method req = (if strings_ToUpper rt (ep_Method endpoint) = [] then ''GET''
                                  else strings_ToUpper rt (ep_Method endpoint))
              \<and> req_Url req = ep_Url endpoint \<and> req_Body req = None
              \<and> mset entries = mset m
              \<and> req_RawQuery req
                  = Some (join_amp (map (\<lambda>(k, v). url_QueryEscape rt k @ ''='' @ v) entries))"
    by (intro exI [of _ req] exI [of _ "range_map rt m"]) (simp add: req req0_def)
qed


section \<open>The sender evaluated\<close>

lemmas sample_eval = sample_runtime_def sample_peripheral_def sample_fields_def no_endpoint_def
  with_endpoint_def found_message_def start_world_def serializePeripheral_def Kind_def
  Proximity_def Accuracy_def UniqueKey_def PERIPHERAL_IBEACON_def Itoa_eval sendSingle_def
  http_NewRequest_def Header_Set_def set_endpoint_headers_def call_transport_def logged_def
  encode_def ascii_upper_def

theorem nil_endpoint_and_empty_url_witness:
  "(serializePeripheral (msg_TargetName (found_message (Some sample_peripheral) []))
       (msg_Peripheral (found_message (Some sample_peripheral) [])) = Inr sample_fields
    \<and> sub_Endpoint no_endpoint = None)
   \<and> sendSingle sample_runtime ''door'' (Some sample_peripheral) no_endpoint start_world
       = (Inr None, \<lparr>outside = 0,
                      trace = [Logged LogWarn (Text ''subscriber has no endpoints'')]\<rparr>)
   \<and> (sub_Endpoint (with_endpoint ''post'' [] [])
         = Some \<lparr>ep_Name = ''hook'', ep_Url = [], ep_Method = ''post'', ep_Headers = []\<rparr>
       \<and> ep_Url \<lparr>ep_Name = ''hook'', ep_Url = [], ep_Method = ''post'', ep_Headers = []\<rparr> = [])
   \<and> sendSingle sample_runtime ''door'' (Some sample_peripheral) (with_endpoint ''post'' [] [])
        start_world
       = (Inr (Some ErrEmptyUrl), \<lparr>outside = 0,
            trace = [Logged LogError (Text ''endpoint has an empty url: %s'')]\<rparr>)
   \<and> serializePeripheral (msg_TargetName (found_message None []))
       (msg_Peripheral (found_message None [])) = Inl ErrMissedPeripheral
   \<and> sendSingle sample_runtime ''door'' None (with_endpoint ''post'' [] []) start_world
       = (Inr (Some ErrMissedPeripheral), \<lparr>outside = 0,
            trace = [Logged LogError (ErrorText ErrMissedPeripheral)]\<rparr>)"
  using nil_endpoint_and_empty_url
    [where msg = "found_message (Some sample_peripheral) []"
       and subscriber = no_endpoint and rt = sample_runtime and w = start_world
       and rest = "[]" and events = "[]"]
    nil_endpoint_and_empty_url
    [where msg = "found_message (Some sample_peripheral) []"
       and subscriber = "with_endpoint ''post'' [] []" and rt = sample_runtime
       and w = start_world and rest = "[]" and events = "[]"]
    nil_endpoint_and_empty_url
    [where msg = "found_message None []"
       and subscriber = "with_endpoint ''post'' [] []" and rt = sample_runtime
       and w = start_world and rest = "[]" and events = "[]"]
  by (simp add: sample_eval)

text \<open>
  A message without peripheral and a subscriber without endpoint: \<open>sendSingle\<close> returns
  the error of the serialization, and the event has delivered false.
\<close>

theorem nil_endpoint_counterexample:
  "sub_Endpoint no_endpoint = None
   \<and> sendSingle sample_runtime ''door'' None no_endpoint start_world
       = (Inr (Some ErrMissedPeripheral),
          \<lparr>outside = 0, trace = [Logged LogError (ErrorText ErrMissedPeripheral)]\<rparr>)
   \<and> fst (sendBatch_loop sample_runtime (found_message None [no_endpoint]) [no_endpoint] []
            start_world)
       = Inr [\<lparr>ev_Name = ''found'', ev_Timestamp = 0, ev_TargetName = ''door'',
               ev_Subscriber = no_endpoint, ev_Delivered = False,
               ev_Error = Some ErrMissedPeripheral\<rparr>]"
  by (simp add: sample_eval)

theorem delivered_iff_witness:
  "range_visits_each_once sample_runtime
   \<and> sub_Endpoint no_endpoint = None
   \<and> fst (sendBatch_loop sample_runtime
         (found_message (Some sample_peripheral)
            [no_endpoint, with_endpoint ''get'' ''http://down'' []])
         [no_endpoint, with_endpoint ''get'' ''http://down'' []] [] start_world)
     = Inr [\<lparr>ev_Name = ''found'', ev_Timestamp = 0, ev_TargetName = ''door'',
             ev_Subscriber = no_endpoint, ev_Delivered = True, ev_Error = None\<rparr>,
            \<lparr>ev_Name = ''found'', ev_Timestamp = 1, ev_TargetName = ''door'',
             ev_Subscriber = with_endpoint ''get'' ''http://down'' [], ev_Delivered = False,
             ev_Error = Some (ErrTransport ''refused'')\<rparr>]"
  using delivered_iff
    [where rt = sample_runtime
       and msg = "found_message (Some sample_peripheral)
                    [no_endpoint, with_endpoint ''get'' ''http://down'' []]"
       and subscriber = no_endpoint and w = start_world
       and rest = "[with_endpoint ''get'' ''http://down'' []]" and events = "[]"]
  by (simp add: sample_eval range_visits_each_once_def)

text \<open>
  A subscriber without endpoint, the peripheral serializing: the event has delivered true,
  while the endpoint is absent and the trace holds no request to the transport.
\<close>

theorem delivered_without_endpoint_counterexample:
  "sub_Endpoint no_endpoint = None
   \<and> sendBatch_loop sample_runtime (found_message (Some sample_peripheral) [no_endpoint])
        [no_endpoint] [] start_world
     = (Inr [\<lparr>ev_Name = ''found'', ev_Timestamp = 0, ev_TargetName = ''door'',
              ev_Subscriber = no_endpoint, ev_Delivered = True, ev_Error = None\<rparr>],
        \<lparr>outside = 1,
         trace = [Logged LogWarn (Text ''subscriber has no endpoints''),
                  Logged LogInfo (Text ''Succeeded to notify a subscriber for peripheral'')]\<rparr>)"
  by (simp add: sample_eval)

theorem batch_outcomes_then_listeners_witness:
  "range_visits_each_once sample_runtime
   \<and> msg_EventName (found_message (Some sample_peripheral)
        [no_endpoint, with_endpoint ''get'' ''http://down'' []]) \<in> {''found'', ''lost''}
   \<and> listener_calls (trace (snd (Send sample_runtime
        \<lparr>listeners = [\<lparr>code_pointer = 1, captured = 0\<rparr>, \<lparr>code_pointer = 2, captured = 0\<rparr>]\<rparr>
        (found_message (Some sample_peripheral)
           [no_endpoint, with_endpoint ''get'' ''http://down'' []])
        start_world)))
     = [(\<lparr>code_pointer = 1, captured = 0\<rparr>,
         \<lparr>ev_Name = ''found'', ev_Timestamp = 0, ev_TargetName = ''door'',
          ev_Subscriber = no_endpoint, ev_Delivered = True, ev_Error = None\<rparr>),
        (\<lparr>code_pointer = 1, captured = 0\<rparr>,
         \<lparr>ev_Name = ''found'', ev_Timestamp = 1, ev_TargetName = ''door'',
          ev_Subscriber = with_endpoint ''get'' ''http://down'' [], ev_Delivered = False,
          ev_Error = Some (ErrTransport ''refused'')\<rparr>),
        (\<lparr>code_pointer = 2, captured = 0\<rparr>,
         \<lparr>ev_Name = ''found'', ev_Timestamp = 0, ev_TargetName = ''door'',
          ev_Subscriber = no_endpoint, ev_Delivered = True, ev_Error = None\<rparr>),
        (\<lparr>code_pointer = 2, captured = 0\<rparr>,
         \<lparr>ev_Name = ''found'', ev_Timestamp = 1, ev_TargetName = ''door'',
          ev_Subscriber = with_endpoint ''get'' ''http://down'' [], ev_Delivered = False,
          ev_Error = Some (ErrTransport ''refused'')\<rparr>)]"
  using batch_outcomes_then_listeners
    [where rt = sample_runtime
       and msg = "found_message (Some sample_peripheral)
                    [no_endpoint, with_endpoint ''get'' ''http://down'' []]"
       and w = start_world
       and sender = "\<lparr>listeners = [\<lparr>code_pointer = 1, captured = 0\<rparr>,
                                   \<lparr>code_pointer = 2, captured = 0\<rparr>]\<rparr>"]
  by (simp add: sample_eval range_visits_each_once_def Send_def sendBatch_def emit_def
      isSupportedEventName_def)

theorem request_encoding_witness:
  "range_visits_each_once sample_runtime
   \<and> serializePeripheral ''door'' (Some sample_peripheral) = Inr sample_fields
   \<and> sent_requests (trace (snd (sendSingle sample_runtime ''door'' (Some sample_peripheral)
        (with_endpoint ''post'' ''http://sub/hook'' []) start_world)))
     = [\<lparr>req_Method = ''POST'', req_Url = ''http://sub/hook'', req_RawQuery = None,
         req_Header = [(''Content-Type'', ''application/json'')],
         req_Body = Some ''name:door;kind:ibeacon;proximity:near;accuracy:0.750000;uuid:U1;major:1;minor:2;''\<rparr>]
   \<and> sent_requests (trace (snd (sendSingle sample_runtime ''door'' (Some sample_peripheral)
        (with_endpoint ''Get'' ''http://sub/hook'' [(''X-Key'', ''1'')]) start_world)))
     = [\<lparr>req_Method = ''GET'', req_Url = ''http://sub/hook'',
         req_RawQuery = Some ''name=door&kind=ibeacon&proximity=near&accuracy=0.750000&uuid=U1&major=1&minor=2'',
         req_Header = [(''X-Key'', ''1'')], req_Body = None\<rparr>]
   \<and> sent_requests (trace (snd (sendSingle sample_runtime ''door'' (Some sample_peripheral)
        (with_endpoint [] ''http://sub/hook'' []) start_world)))
     = [\<lparr>req_Method = ''GET'', req_Url = ''http://sub/hook'',
         req_RawQuery = Some ''name=door&kind=ibeacon&proximity=near&accuracy=0.750000&uuid=U1&major=1&minor=2'',
         req_Header = [], req_Body = None\<rparr>]
   \<and> map_of (req_Header (hd (sent_requests (trace (snd (sendSingle sample_runtime ''door''
        (Some sample_peripheral)
        (with_endpoint ''POST'' ''http://sub/hook'' [(''Content-Type'', ''text/plain'')])
        start_world)))))) ''Content-Type'' = Some ''text/plain''"
  using request_encoding
    [where rt = sample_runtime and name = "''door''" and peripheral = "Some sample_peripheral"
       and m = sample_fields
       and subscriber = "with_endpoint [] ''http://sub/hook'' []"
       and endpoint = "\<lparr>ep_Name = ''hook'', ep_Url = ''http://sub/hook'', ep_Method = [],
                          ep_Headers = []\<rparr>"
       and w = start_world]
    request_encoding
    [where rt = sample_runtime and name = "''door''" and peripheral = "Some sample_peripheral"
       and m = sample_fields
       and subscriber = "with_endpoint ''POST'' ''http://sub/hook''
                           [(''Content-Type'', ''text/plain'')]"
       and endpoint = "\<lparr>ep_Name = ''hook'', ep_Url = ''http://sub/hook'', ep_Method = ''POST'',
                          ep_Headers = [(''Content-Type'', ''text/plain'')]\<rparr>"
       and w = start_world]
    request_encoding
    [where rt = sample_runtime and name = "''door''" and peripheral = "Some sample_peripheral"
       and m = sample_fields and subscriber = "with_endpoint ''post'' ''http://sub/hook'' []"
       and endpoint = "\<lparr>ep_Name = ''hook'', ep_Url = ''http://sub/hook'', ep_Method = ''post'',
                          ep_Headers = []\<rparr>"
       and w = start_world]
    request_encoding
    [where rt = sample_runtime and name = "''door''" and peripheral = "Some sample_peripheral"
       and m = sample_fields
       and subscriber = "with_endpoint ''Get'' ''http://sub/hook'' [(''X-Key'', ''1'')]"
       and endpoint = "\<lparr>ep_Name = ''hook'', ep_Url = ''http://sub/hook'', ep_Method = ''Get'',
                          ep_Headers = [(''X-Key'', ''1'')]\<rparr>"
       and w = start_world]
  by (simp add: sample_eval range_visits_each_once_def)

text \<open>
  An endpoint with method post and the header Content-Type: text/plain. The request given
  to the transport has method POST and the Content-Type text/plain.
\<close>

theorem content_type_override_counterexample:
  "strings_ToUpper sample_runtime ''post'' = ''POST''
   \<and> sent_requests (trace (snd (sendSingle sample_runtime ''door'' (Some sample_peripheral)
        (with_endpoint ''post'' ''http://sub/hook'' [(''Content-Type'', ''text/plain'')])
        start_world)))
     = [\<lparr>req_Method = ''POST'', req_Url = ''http://sub/hook'', req_RawQuery = None,
         req_Header = [(''Content-Type'', ''text/plain'')],
         req_Body = Some ''name:door;kind:ibeacon;proximity:near;accuracy:0.750000;uuid:U1;major:1;minor:2;''\<rparr>]
   \<and> map_of [(''Content-Type'', ''text/plain'')] ''Content-Type'' \<noteq> Some ''application/json''"
  by (simp add: sample_eval)

end
